theory Spec2Isabelle
  imports Complex_Main
begin

section \<open>Values shared by the models\<close>

text \<open>
  A Python float is a real number, one of the two infinities, or not-a-number. An
  arithmetic result whose magnitude reaches \<open>2^1024 - 2^970\<close> rounds to an infinity
  (the overflow of binary64); the rounding of smaller results is not modelled. The
  geocoding stage and the DEM provider below compute on the reals of a bounding box.
\<close>

datatype pyfloat = Num real | PInf | NInf | NaN

definition overflow_bound :: real where
  "overflow_bound = 2 ^ 1024 - 2 ^ 970"

definition to_float :: "real \<Rightarrow> pyfloat" where
  "to_float x =
     (if overflow_bound \<le> x then PInf else if x \<le> - overflow_bound then NInf else Num x)"

text \<open>A two-dimensional numpy array: its shape and the cell at (row, column).\<close>

record 'a ndarray =
  shape0 :: nat
  shape1 :: nat
  cell :: "nat \<Rightarrow> nat \<Rightarrow> 'a"

text \<open>Python's \<^verbatim>\<open>int(x)\<close> on a finite float truncates towards zero.\<close>

definition py_int :: "real \<Rightarrow> int" where
  "py_int x = (if 0 \<le> x then \<lfloor>x\<rfloor> else \<lceil>x\<rceil>)"

section \<open>utils.py: extract_displacement_at_points\<close>

datatype py_error =
  ZeroDivisionError | IndexError | ValueError | RuntimeError | BadZipFile | OverflowError

text \<open>
  Float arithmetic with a finite right operand, as in \<^verbatim>\<open>(lon - gt[0]) / gt[1]\<close>:
  the difference, and the quotient, which raises on a zero divisor. \<^verbatim>\<open>int(x)\<close> raises
  OverflowError on an infinity and ValueError on not-a-number.
\<close>

definition float_sub :: "pyfloat \<Rightarrow> real \<Rightarrow> pyfloat" where
  "float_sub x b = (case x of Num a \<Rightarrow> to_float (a - b) | PInf \<Rightarrow> PInf | NInf \<Rightarrow> NInf | NaN \<Rightarrow> NaN)"

definition float_div :: "pyfloat \<Rightarrow> real \<Rightarrow> py_error + pyfloat" where
  "float_div x b =
     (if b = 0 then Inl ZeroDivisionError
      else Inr (case x of
                  Num a \<Rightarrow> to_float (a / b)
                | PInf \<Rightarrow> if 0 < b then PInf else NInf
                | NInf \<Rightarrow> if 0 < b then NInf else PInf
                | NaN \<Rightarrow> NaN))"

definition float_to_int :: "pyfloat \<Rightarrow> py_error + int" where
  "float_to_int x =
     (case x of
        Num a \<Rightarrow> Inr (py_int a)
      | PInf \<Rightarrow> Inl OverflowError
      | NInf \<Rightarrow> Inl OverflowError
      | NaN \<Rightarrow> Inl ValueError)"

text \<open>The six coefficients GDAL returns from \<^verbatim>\<open>GetGeoTransform()\<close>, finite numbers.\<close>

record geotransform =
  gt0 :: real
  gt1 :: real
  gt2 :: real
  gt3 :: real
  gt4 :: real
  gt5 :: real

text \<open>
  What the sampler reads from the opened displacement dataset: band 1 as an array,
  the band's nodata value (\<^verbatim>\<open>None\<close> when unset) and the geotransform.
\<close>

record raster =
  disp_data :: "pyfloat ndarray"
  band_nodata :: "real option"
  gt :: geotransform

text \<open>
  A requested point: \<^verbatim>\<open>point.get("id")\<close>, \<^verbatim>\<open>point.get("lat")\<close>, \<^verbatim>\<open>point.get("lon")\<close>,
  the coordinates being floats.
\<close>

record point =
  pid :: "string option"
  plat :: "pyfloat option"
  plon :: "pyfloat option"

text \<open>
  One entry of the result list. A key the source leaves out of the dictionary
  (\<^verbatim>\<open>error\<close> on a read pixel, \<^verbatim>\<open>lat\<close> and \<^verbatim>\<open>lon\<close> on a rejected point) is \<open>None\<close>,
  as is a key it sets to \<^verbatim>\<open>None\<close>.
\<close>

record sample =
  point_id :: "string option"
  displacement_mm :: "pyfloat option"
  coherence :: "pyfloat option"
  valid :: bool
  error :: "string option"
  lat :: "pyfloat option"
  lon :: "pyfloat option"

text \<open>\<^verbatim>\<open>disp_band.GetNoDataValue() or -9999\<close>: an unset value and the falsy 0.0 both give -9999.\<close>

definition disp_nodata :: "raster \<Rightarrow> real" where
  "disp_nodata r = (case band_nodata r of
       None \<Rightarrow> - 9999
     | Some v \<Rightarrow> if v = 0 then - 9999 else v)"

text \<open>
  \<^verbatim>\<open>px = int((lon - gt[0]) / gt[1])\<close>, then \<^verbatim>\<open>py = int((lat - gt[3]) / gt[5])\<close>: each
  statement can raise, the first one first.
\<close>

definition pixel_coordinate :: "pyfloat \<Rightarrow> real \<Rightarrow> real \<Rightarrow> py_error + int" where
  "pixel_coordinate x origin pixel_size =
     (case float_div (float_sub x origin) pixel_size of
        Inl e \<Rightarrow> Inl e
      | Inr q \<Rightarrow> float_to_int q)"

definition pixel_index :: "geotransform \<Rightarrow> pyfloat \<Rightarrow> pyfloat \<Rightarrow> py_error + int \<times> int" where
  "pixel_index g lo la =
     (case pixel_coordinate lo (gt0 g) (gt1 g) of
        Inl e \<Rightarrow> Inl e
      | Inr px \<Rightarrow>
     (case pixel_coordinate la (gt3 g) (gt5 g) of
        Inl e \<Rightarrow> Inl e
      | Inr py \<Rightarrow> Inr (px, py)))"

definition outside_extent :: "'a ndarray \<Rightarrow> int \<Rightarrow> int \<Rightarrow> bool" where
  "outside_extent a px py \<longleftrightarrow>
     px < 0 \<or> px \<ge> int (shape1 a) \<or> py < 0 \<or> py \<ge> int (shape0 a)"

text \<open>\<^verbatim>\<open>a[py, px]\<close> for non-negative indices: numpy raises IndexError beyond the shape.\<close>

definition read_cell :: "'a ndarray \<Rightarrow> nat \<Rightarrow> nat \<Rightarrow> py_error + 'a" where
  "read_cell a py px =
     (if py < shape0 a \<and> px < shape1 a then Inr (cell a py px) else Inl IndexError)"

definition missing_entry :: "point \<Rightarrow> sample" where
  "missing_entry p = \<lparr>point_id = pid p, displacement_mm = None, coherence = None,
     valid = False, error = Some ''Missing coordinates'', lat = None, lon = None\<rparr>"

definition outside_entry :: "point \<Rightarrow> sample" where
  "outside_entry p = \<lparr>point_id = pid p, displacement_mm = None, coherence = None,
     valid = False, error = Some ''Point outside raster bounds'', lat = None, lon = None\<rparr>"

text \<open>
  \<^verbatim>\<open>valid = (disp_value != disp_nodata) and not np.isnan(disp_value)\<close>, then the entry
  with \<^verbatim>\<open>disp_value if valid else None\<close>.
\<close>

definition read_entry ::
    "raster \<Rightarrow> point \<Rightarrow> pyfloat \<Rightarrow> pyfloat \<Rightarrow> pyfloat \<Rightarrow> pyfloat option \<Rightarrow> sample" where
  "read_entry r p la lo disp_value coh_value =
     (let ok = (disp_value \<noteq> Num (disp_nodata r) \<and> disp_value \<noteq> NaN)
      in \<lparr>point_id = pid p,
          displacement_mm = (if ok then Some disp_value else None),
          coherence = coh_value,
          valid = ok, error = None, lat = Some la, lon = Some lo\<rparr>)"

text \<open>The body of \<^verbatim>\<open>for point in points\<close>: the entry appended, or the exception raised.\<close>

definition sample_point :: "raster \<Rightarrow> pyfloat ndarray option \<Rightarrow> point \<Rightarrow> py_error + sample" where
  "sample_point r coh_data p =
     (case plat p of
        None \<Rightarrow> Inr (missing_entry p)
      | Some la \<Rightarrow>
     (case plon p of
        None \<Rightarrow> Inr (missing_entry p)
      | Some lo \<Rightarrow>
     (case pixel_index (gt r) lo la of
        Inl e \<Rightarrow> Inl e
      | Inr (px, py) \<Rightarrow>
          if outside_extent (disp_data r) px py then Inr (outside_entry p)
          else
            let disp_value = cell (disp_data r) (nat py) (nat px) in
            (case coh_data of
               None \<Rightarrow> Inr (read_entry r p la lo disp_value None)
             | Some c \<Rightarrow>
                 (case read_cell c (nat py) (nat px) of
                    Inl e \<Rightarrow> Inl e
                  | Inr cv \<Rightarrow> Inr (read_entry r p la lo disp_value (Some cv)))))))"

text \<open>The loop: entries are appended in turn; an exception leaves the function.\<close>

fun sample_loop :: "raster \<Rightarrow> pyfloat ndarray option \<Rightarrow> point list \<Rightarrow> sample list
    \<Rightarrow> py_error + sample list" where
  "sample_loop r coh_data [] results = Inr results"
| "sample_loop r coh_data (p # ps) results =
     (case sample_point r coh_data p of
        Inl e \<Rightarrow> Inl e
      | Inr s \<Rightarrow> sample_loop r coh_data ps (results @ [s]))"

text \<open>
  The first argument is the result of \<^verbatim>\<open>gdal.Open(displacement_raster)\<close> (\<open>None\<close> when
  the dataset cannot be opened: the source then returns the empty list), the second
  the coherence array (\<open>None\<close> when no coherence raster is given or it cannot be opened).
\<close>

definition extract_displacement_at_points ::
    "raster option \<Rightarrow> pyfloat ndarray option \<Rightarrow> point list \<Rightarrow> py_error + sample list" where
  "extract_displacement_at_points disp_ds coh_data points =
     (case disp_ds of
        None \<Rightarrow> Inr []
      | Some r \<Rightarrow> sample_loop r coh_data points [])"

section \<open>isce3_processor.py: phase to displacement and geocoding\<close>

definition SENTINEL1_WAVELENGTH_M :: real where
  "SENTINEL1_WAVELENGTH_M = 0.0555041"

definition RAD_TO_MM :: real where
  "RAD_TO_MM = (SENTINEL1_WAVELENGTH_M * 1000) / (4 * pi)"

record bbox =
  north :: real
  south :: real
  east :: real
  west :: real

text \<open>numpy's \<^verbatim>\<open>array * scalar\<close>: every cell is multiplied.\<close>

definition scale_array :: "real ndarray \<Rightarrow> real \<Rightarrow> real ndarray" where
  "scale_array a k = a\<lparr>cell := \<lambda>i j. cell a i j * k\<rparr>"

text \<open>Python's \<^verbatim>\<open>round(x)\<close>: to the nearest integer, a tie to the even one.\<close>

definition py_round :: "real \<Rightarrow> int" where
  "py_round x =
     (let f = \<lfloor>x\<rfloor>; d = x - of_int f
      in if d < 1 / 2 then f else if 1 / 2 < d then f + 1 else if even f then f else f + 1)"

text \<open>
  \<^verbatim>\<open>scipy.ndimage.zoom(input, (zoom_y, zoom_x), order=1)\<close>, which the source calls with
  the library's defaults. The output shape is \<^verbatim>\<open>int(round(n * zoom))\<close> along each axis;
  output index \<open>i\<close> along an axis of \<open>n_in\<close> input and \<open>n_out\<close> output cells is read at
  the input coordinate \<open>i * (n_in - 1) / (n_out - 1)\<close> (ratio 1 when \<open>n_out - 1 = 0\<close>);
  order 1 is linear interpolation between the two neighbouring cells along each axis,
  with weights \<open>1 - t\<close> and \<open>t\<close> for the fractional part \<open>t\<close>. A neighbour beyond the
  array only occurs with weight 0 and is read as the fill value 0.
\<close>

definition zoom_ratio :: "nat \<Rightarrow> int \<Rightarrow> real" where
  "zoom_ratio n_in n_out =
     (if n_out - 1 = 0 then 1 else (real n_in - 1) / (real_of_int n_out - 1))"

definition cell_or_cval :: "real ndarray \<Rightarrow> int \<Rightarrow> int \<Rightarrow> real" where
  "cell_or_cval a i j =
     (if 0 \<le> i \<and> i < int (shape0 a) \<and> 0 \<le> j \<and> j < int (shape1 a)
      then cell a (nat i) (nat j) else 0)"

definition interp_linear :: "real ndarray \<Rightarrow> real \<Rightarrow> real \<Rightarrow> real" where
  "interp_linear a y x =
     (let i = \<lfloor>y\<rfloor>; j = \<lfloor>x\<rfloor>; u = y - of_int i; v = x - of_int j
      in (1 - u) * ((1 - v) * cell_or_cval a i j + v * cell_or_cval a i (j + 1))
         + u * ((1 - v) * cell_or_cval a (i + 1) j + v * cell_or_cval a (i + 1) (j + 1)))"

definition zoom :: "real ndarray \<Rightarrow> real \<Rightarrow> real \<Rightarrow> py_error + real ndarray" where
  "zoom a zoom_y zoom_x =
     (let out0 = py_round (real (shape0 a) * zoom_y);
          out1 = py_round (real (shape1 a) * zoom_x)
      in if out0 < 0 \<or> out1 < 0 then Inl ValueError
         else Inr \<lparr>shape0 = nat out0, shape1 = nat out1,
                   cell = (\<lambda>i j. interp_linear a
                             (real i * zoom_ratio (shape0 a) out0)
                             (real j * zoom_ratio (shape1 a) out1))\<rparr>)"

text \<open>
  The arrays \<^verbatim>\<open>_geocode\<close> hands to \<^verbatim>\<open>WriteArray\<close> for the two output files, with the
  geotransform and the nodata value it sets on both bands.
\<close>

record geocoded =
  disp_resampled :: "real ndarray"
  coh_resampled :: "real ndarray"
  geotransform_out :: geotransform
  nodata_out :: real

text \<open>
  \<^verbatim>\<open>_geocode\<close>, from the arrays read from the unwrapped-phase and coherence files.
  \<^verbatim>\<open>height / displacement_mm.shape[0]\<close> raises on an empty axis; GDAL's
  \<^verbatim>\<open>driver.Create\<close> refuses a raster without pixels.
\<close>

definition geocode :: "real ndarray \<Rightarrow> real ndarray \<Rightarrow> bbox \<Rightarrow> py_error + geocoded" where
  "geocode phase coh b =
     (let displacement_mm = scale_array phase RAD_TO_MM;
          pixel_size = 0.0001;
          width = py_int ((east b - west b) / pixel_size);
          height = py_int ((north b - south b) / pixel_size);
          geotransform = \<lparr>gt0 = west b, gt1 = pixel_size, gt2 = 0,
                           gt3 = north b, gt4 = 0, gt5 = - pixel_size\<rparr>
      in if shape0 displacement_mm = 0 \<or> shape1 displacement_mm = 0 then Inl ZeroDivisionError
         else
           let zoom_y = real_of_int height / real (shape0 displacement_mm);
               zoom_x = real_of_int width / real (shape1 displacement_mm)
           in (case zoom displacement_mm zoom_y zoom_x of
                 Inl e \<Rightarrow> Inl e
               | Inr dr \<Rightarrow>
              (case zoom coh zoom_y zoom_x of
                 Inl e \<Rightarrow> Inl e
               | Inr cr \<Rightarrow>
                   if width \<le> 0 \<or> height \<le> 0 then Inl RuntimeError
                   else Inr \<lparr>disp_resampled = dr, coh_resampled = cr,
                             geotransform_out = geotransform, nodata_out = - 9999\<rparr>)))"

section \<open>isce3_processor.py: the DEM provider\<close>

text \<open>Decimal digits, for Python's \<^verbatim>\<open>f"{x:.2f}"\<close>.\<close>

definition digit_char :: "nat \<Rightarrow> char" where
  "digit_char d = ''0123456789'' ! d"

function dec :: "nat \<Rightarrow> string" where
  "dec n = (if n < 10 then [digit_char n] else dec (n div 10) @ [digit_char (n mod 10)])"
  by pat_completeness auto
termination
  by (relation "measure id") auto

text \<open>
  \<^verbatim>\<open>f"{x:.2f}"\<close>: the value rounded to hundredths (a tie to the even digit), printed
  with a minus sign when it is negative, also when it rounds to zero.
\<close>

definition fmt2 :: "real \<Rightarrow> string" where
  "fmt2 x =
     (let n = nat (py_round (\<bar>x\<bar> * 100))
      in (if x < 0 then ''-'' else '''') @ dec (n div 100) @ ''.''
         @ [digit_char (n mod 100 div 10), digit_char (n mod 10)])"

text \<open>The bounding box with the margin of \<^verbatim>\<open>_prepare_dem\<close> applied.\<close>

definition margin :: real where
  "margin = 0.1"

definition expand :: "bbox \<Rightarrow> bbox" where
  "expand b = \<lparr>north = north b + margin, south = south b - margin,
               east = east b + margin, west = west b - margin\<rparr>"

definition dem_filename :: "bbox \<Rightarrow> string" where
  "dem_filename b =
     (let e = expand b
      in ''dem_'' @ fmt2 (south e) @ ''_'' @ fmt2 (west e) @ ''_'' @ fmt2 (north e) @ ''_''
         @ fmt2 (east e) @ ''.tif'')"

text \<open>
  \<^verbatim>\<open>Path(d) / name\<close> as a string: an absolute \<open>name\<close> replaces \<open>d\<close>. Paths are
  taken as written, without pathlib's normalisation of repeated or trailing slashes.
\<close>

definition path_join :: "string \<Rightarrow> string \<Rightarrow> string" where
  "path_join d name =
     (if name \<noteq> [] \<and> hd name = CHR ''/'' then name else d @ ''/'' @ name)"

text \<open>
  What a DEM file on disk holds: the raster \<^verbatim>\<open>gdal.Warp\<close> wrote for its output
  bounds (west, south, east, north), or the raster \<^verbatim>\<open>_create_synthetic_dem\<close> wrote.
\<close>

record synthetic_dem =
  syn_gt :: geotransform
  syn_width :: int
  syn_height :: int
  syn_value :: real
  syn_nodata :: real

datatype dem_file = Warped real real real real | Synthetic synthetic_dem

text \<open>
  The outcome of \<^verbatim>\<open>gdal.Warp\<close> on the remote tile: a dataset (the file is written),
  \<^verbatim>\<open>None\<close>, or an exception.
\<close>

datatype warp_outcome = WarpDataset | WarpNone | WarpRaises

datatype dem_action = Fetch | CreateSynthetic

type_synonym dem_fs = "string \<rightharpoonup> dem_file"

text \<open>
  \<^verbatim>\<open>_create_synthetic_dem(dem_path, bbox)\<close>. GDAL's \<^verbatim>\<open>driver.Create\<close> refuses a
  raster without pixels.
\<close>

definition create_synthetic_dem :: "dem_fs \<Rightarrow> string \<Rightarrow> bbox \<Rightarrow> py_error + dem_fs" where
  "create_synthetic_dem fs dem_path b =
     (let pixel_size = 0.0003;
          width = py_int ((east b - west b) / pixel_size);
          height = py_int ((north b - south b) / pixel_size)
      in if width \<le> 0 \<or> height \<le> 0 then Inl RuntimeError
         else Inr (fs(dem_path \<mapsto> Synthetic
                \<lparr>syn_gt = \<lparr>gt0 = west b, gt1 = pixel_size, gt2 = 0,
                            gt3 = north b, gt4 = 0, gt5 = - pixel_size\<rparr>,
                 syn_width = width, syn_height = height,
                 syn_value = 0 + 100, syn_nodata = - 9999\<rparr>)))"

text \<open>
  \<^verbatim>\<open>_prepare_dem(bbox)\<close> on the files of the DEM directory: the path returned, the
  files afterwards and what was done to produce the file.
\<close>

definition prepare_dem ::
    "string \<Rightarrow> dem_fs \<Rightarrow> warp_outcome \<Rightarrow> bbox \<Rightarrow> py_error + string \<times> dem_fs \<times> dem_action list" where
  "prepare_dem dem_dir fs warp b =
     (let e = expand b;
          dem_path = path_join dem_dir (dem_filename b)
      in if fs dem_path \<noteq> None then Inr (dem_path, fs, [])
         else if warp = WarpDataset
         then Inr (dem_path, fs(dem_path \<mapsto> Warped (west e) (south e) (east e) (north e)), [Fetch])
         else (case create_synthetic_dem fs dem_path b of
                 Inl err \<Rightarrow> Inl err
               | Inr fs' \<Rightarrow> Inr (dem_path, fs', [Fetch, CreateSynthetic])))"

text \<open>The ground extent (west, south, east, north) of a DEM file.\<close>

fun dem_extent :: "dem_file \<Rightarrow> real \<times> real \<times> real \<times> real" where
  "dem_extent (Warped w s e n) = (w, s, e, n)"
| "dem_extent (Synthetic d) =
     (gt0 (syn_gt d), gt3 (syn_gt d) + of_int (syn_height d) * gt5 (syn_gt d),
      gt0 (syn_gt d) + of_int (syn_width d) * gt1 (syn_gt d), gt3 (syn_gt d))"


section \<open>isce3_processor.py: the granule stager\<close>

text \<open>\<^verbatim>\<open>Path(p).name\<close>, \<^verbatim>\<open>.suffix\<close> and \<^verbatim>\<open>.stem\<close>, and \<^verbatim>\<open>str.lower()\<close> on ASCII.\<close>

definition path_name :: "string \<Rightarrow> string" where
  "path_name p = rev (takeWhile (\<lambda>c. c \<noteq> CHR ''/'') (rev p))"

text \<open>
  The characters after the last dot of the name, when the name has a dot that is
  neither its first nor its last character.
\<close>

definition after_last_dot :: "string \<Rightarrow> string option" where
  "after_last_dot name =
     (let r = rev (takeWhile (\<lambda>c. c \<noteq> CHR ''.'') (rev name))
      in if length r < length name \<and> r \<noteq> [] \<and> Suc (length r) < length name
         then Some r else None)"

definition path_suffix :: "string \<Rightarrow> string" where
  "path_suffix p = (case after_last_dot (path_name p) of None \<Rightarrow> [] | Some r \<Rightarrow> CHR ''.'' # r)"

definition path_stem :: "string \<Rightarrow> string" where
  "path_stem p =
     (case after_last_dot (path_name p) of
        None \<Rightarrow> path_name p
      | Some r \<Rightarrow> take (length (path_name p) - Suc (length r)) (path_name p))"

definition lower_char :: "char \<Rightarrow> char" where
  "lower_char c =
     (case map_of (zip ''ABCDEFGHIJKLMNOPQRSTUVWXYZ'' ''abcdefghijklmnopqrstuvwxyz'') c of
        None \<Rightarrow> c
      | Some l \<Rightarrow> l)"

definition lower :: "string \<Rightarrow> string" where
  "lower s = map lower_char s"

text \<open>\<^verbatim>\<open>s.endswith(suf)\<close>.\<close>

definition endswith :: "string \<Rightarrow> string \<Rightarrow> bool" where
  "endswith s suf \<longleftrightarrow> length suf \<le> length s \<and> drop (length s - length suf) s = suf"

text \<open>\<^verbatim>\<open>glob("*.SAFE")\<close> on a directory listing, in the listing's order.\<close>

definition glob_SAFE :: "string list \<Rightarrow> string list" where
  "glob_SAFE listing = filter (\<lambda>n. endswith n ''.SAFE'') listing"

text \<open>
  What opening and extracting the archive does: it raises, or it creates the
  archive's top-level entries in the target directory.
\<close>

datatype zip_outcome = ZipRaises | ZipEntries "string list"

text \<open>
  \<^verbatim>\<open>_extract_safe(safe_path)\<close>. The state is the listing of \<^verbatim>\<open>work_dir/slc\<close>; the
  result is the returned path or the exception, with the listing afterwards.
\<close>

definition found_or_extract_dir :: "string \<Rightarrow> string \<Rightarrow> string list \<Rightarrow> string" where
  "found_or_extract_dir slc_dir extract_dir listing =
     (let safe_dirs = glob_SAFE listing
      in if safe_dirs \<noteq> [] then path_join slc_dir (hd safe_dirs) else extract_dir)"

definition extract_safe ::
    "string \<Rightarrow> string list \<Rightarrow> zip_outcome \<Rightarrow> string \<Rightarrow> (py_error + string) \<times> string list" where
  "extract_safe work_dir listing zf safe_path =
     (if lower (path_suffix safe_path) = ''.zip''
      then
        let slc_dir = path_join work_dir ''slc'';
            extract_dir = path_join slc_dir (path_stem safe_path)
        in if path_stem safe_path \<in> set listing
           then (Inr (found_or_extract_dir slc_dir extract_dir listing), listing)
           else (case zf of
                   ZipRaises \<Rightarrow> (Inl BadZipFile, listing)
                 | ZipEntries names \<Rightarrow>
                     let listing' = listing @ filter (\<lambda>n. n \<notin> set listing) names
                     in (Inr (found_or_extract_dir slc_dir extract_dir listing'), listing'))
      else (Inr safe_path, listing))"

section \<open>utils.py: download_granule\<close>

text \<open>
  An exception as the handler sees it: its class, \<^verbatim>\<open>str(e)\<close>, the functions on the
  call stack from the frame that catches it down to the raise, and, for an exception
  raised while another one was being handled, the lines a traceback prints for that
  other exception before its own (empty otherwise).
\<close>

record exn =
  exc_class :: string
  exc_msg :: string
  exc_tb :: "string list"
  exc_context :: "string list"

text \<open>
  What the network does for one request. \<^verbatim>\<open>session.get\<close> raises; or
  \<^verbatim>\<open>raise_for_status\<close> raises; or a response arrives: its content-length header
  (absent, a number, or text on which \<^verbatim>\<open>int\<close> raises), whether \<^verbatim>\<open>open\<close> raises,
  the chunks delivered, and the exception that ends the stream early, if any.
\<close>

datatype content_length = NoHeader | Length int | Malformed exn

datatype http_outcome =
    GetRaises exn
  | StatusRaises exn
  | Response content_length "exn option" "string list" "exn option"

type_synonym granule_fs = "string \<rightharpoonup> string"

definition granule_path :: "string \<Rightarrow> string \<Rightarrow> string" where
  "granule_path output_dir granule_name =
     path_join output_dir
       (if endswith granule_name ''.zip'' then granule_name else granule_name @ ''.zip'')"

text \<open>The \<^verbatim>\<open>except\<close> clause: the file is removed if it exists, the exception raised again.\<close>

definition download_failed :: "exn \<Rightarrow> granule_fs \<Rightarrow> string \<Rightarrow> (exn + string) \<times> granule_fs" where
  "download_failed e fs output_path =
     (Inl e, if fs output_path \<noteq> None then fs(output_path := None) else fs)"

text \<open>The \<^verbatim>\<open>for chunk in ...\<close> loop: the file after each non-empty chunk is written.\<close>

fun write_chunks :: "string \<Rightarrow> string list \<Rightarrow> string" where
  "write_chunks written [] = written"
| "write_chunks written (chunk # rest) =
     write_chunks (if chunk \<noteq> [] then written @ chunk else written) rest"

definition download_granule ::
    "granule_fs \<Rightarrow> http_outcome \<Rightarrow> string \<Rightarrow> string \<Rightarrow> string \<Rightarrow> (exn + string) \<times> granule_fs" where
  "download_granule fs net url granule_name output_dir =
     (let output_path = granule_path output_dir granule_name
      in if fs output_path \<noteq> None then (Inr output_path, fs)
         else (case net of
                 GetRaises e \<Rightarrow> download_failed e fs output_path
               | StatusRaises e \<Rightarrow> download_failed e fs output_path
               | Response cl open_error chunks stream_error \<Rightarrow>
                   (case cl of
                      Malformed e \<Rightarrow> download_failed e fs output_path
                    | _ \<Rightarrow>
                   (case open_error of
                      Some e \<Rightarrow> download_failed e fs output_path
                    | None \<Rightarrow>
                        let fs' = fs(output_path \<mapsto> write_chunks [] chunks)
                        in (case stream_error of
                              Some e \<Rightarrow> download_failed e fs' output_path
                            | None \<Rightarrow> (Inr output_path, fs'))))))"


section \<open>handler.py: validation and the job handler\<close>

text \<open>
  The job input, with the value of each key (\<open>None\<close> when the key is absent). The
  bounding box only reaches the pipeline stages, whose outcomes are given below.
\<close>

record job_input =
  job_id :: "string option"
  infrastructure_id :: "string option"
  reference_granule :: "string option"
  secondary_granule :: "string option"
  reference_url :: "string option"
  secondary_url :: "string option"
  reference_path :: "string option"
  secondary_path :: "string option"
  points :: "point list option"
  webhook_url :: "string option"

text \<open>Truth value of \<^verbatim>\<open>job_input.get(key)\<close> for a string: absent and empty are false.\<close>

definition truthy :: "string option \<Rightarrow> bool" where
  "truthy v = (case v of None \<Rightarrow> False | Some s \<Rightarrow> s \<noteq> [])"

text \<open>The two dictionaries \<^verbatim>\<open>validate_input\<close> returns.\<close>

datatype validation = Valid | Invalid string

fun first_missing :: "(string \<times> string option) list \<Rightarrow> string option" where
  "first_missing [] = None"
| "first_missing ((field, v) # rest) = (if \<not> truthy v then Some field else first_missing rest)"

definition validate_input :: "job_input \<Rightarrow> validation" where
  "validate_input ji =
     (let required_fields = [(''job_id'', job_id ji),
                             (''reference_granule'', reference_granule ji),
                             (''secondary_granule'', secondary_granule ji)];
          has_urls = (truthy (reference_url ji) \<and> truthy (secondary_url ji));
          has_paths = (truthy (reference_path ji) \<and> truthy (secondary_path ji))
      in case first_missing required_fields of
           Some field \<Rightarrow> Invalid (''Missing required field: '' @ field)
         | None \<Rightarrow>
             if \<not> has_urls \<and> \<not> has_paths
             then Invalid ''Must provide either URLs or paths for granules''
             else Valid)"

text \<open>
  \<^verbatim>\<open>traceback.format_exc()\<close>, line by line: the lines of the exception that was being
  handled, if any; then the header, one line per function on the stack (file names and
  line numbers left out), the exception's class and message.
\<close>

definition format_exc :: "exn \<Rightarrow> string list" where
  "format_exc e =
     exc_context e
       @ ''Traceback (most recent call last):'' # map (\<lambda>f. ''  in '' @ f) (exc_tb e)
       @ [exc_class e @ '': '' @ exc_msg e]"

text \<open>
  The context lines of an exception raised in the \<^verbatim>\<open>except\<close> clause of function \<open>f\<close>
  while \<open>f\<close> handles \<open>e\<close>.
\<close>

definition during_handling :: "string \<Rightarrow> exn \<Rightarrow> string list" where
  "during_handling f e =
     format_exc (e\<lparr>exc_tb := f # exc_tb e\<rparr>)
       @ [[], ''During handling of the above exception, another exception occurred:'', []]"

text \<open>An exception raised by a statement of \<^verbatim>\<open>handler\<close> itself.\<close>

definition raise_in_handler :: "string \<Rightarrow> string \<Rightarrow> exn" where
  "raise_in_handler cls m =
     \<lparr>exc_class = cls, exc_msg = m, exc_tb = [''handler''], exc_context = []\<rparr>"

text \<open>An exception of a function \<^verbatim>\<open>handler\<close> calls, as it reaches the handler's frame.\<close>

definition through_handler :: "exn \<Rightarrow> exn" where
  "through_handler e = e\<lparr>exc_tb := ''handler'' # exc_tb e\<rparr>"

text \<open>\<^verbatim>\<open>repr\<close> of a plain string, which is \<^verbatim>\<open>str\<close> of a KeyError for that key.\<close>

definition repr_str :: "string \<Rightarrow> string" where
  "repr_str s = CHR 0x27 # s @ [CHR 0x27]"

text \<open>The stages inside the \<^verbatim>\<open>try\<close> block of \<^verbatim>\<open>process_pair\<close>, in the order they run.\<close>

datatype stage =
    ImportModules | CreateDirectories | PrepareDem | ExtractReference | ExtractSecondary
  | Coregister | FormInterferogram | FilterPhase | UnwrapPhase | Geocode | CalculateStatistics

definition pipeline :: "stage list" where
  "pipeline = [ImportModules, CreateDirectories, PrepareDem, ExtractReference,
     ExtractSecondary, Coregister, FormInterferogram, FilterPhase, UnwrapPhase, Geocode,
     CalculateStatistics]"

text \<open>What the handler does, in the order it does it.\<close>

datatype step =
    Validate | DownloadReference | DownloadSecondary | InitProcessor | Run stage
  | ExtractPoints | Upload | NotifyWebhook | Cleanup

record stats =
  mean_coherence :: "real option"
  mean_displacement_mm :: "real option"
  min_displacement_mm :: "real option"
  max_displacement_mm :: "real option"

record result_urls =
  url_interferogram :: "string option"
  url_coherence :: "string option"
  url_displacement :: "string option"
  url_unwrapped :: "string option"

text \<open>
  What the world outside the handler does in one run: the outcome of each download,
  the ImportError of \<^verbatim>\<open>import isce3\<close> when ISCE3 is missing, for each pipeline stage the
  exception it raises (\<open>None\<close> when it succeeds), the statistics of the output rasters,
  the outcome of the point extraction, the storage bucket of the environment and the
  outcome of the upload.
\<close>

record env =
  download_reference :: "exn + string"
  download_secondary :: "exn + string"
  isce3_import_error :: "exn option"
  stage_outcome :: "stage \<Rightarrow> exn option"
  raster_statistics :: stats
  extraction :: "exn + sample list"
  storage_bucket :: "string option"
  upload :: "exn + result_urls"

text \<open>The dictionary \<^verbatim>\<open>process_pair\<close> returns.\<close>

record processing_result =
  success :: bool
  interferogram :: "string option"
  coherence_path :: "string option"
  displacement :: "string option"
  unwrapped :: "string option"
  statistics :: stats
  processing_error :: "string option"

text \<open>
  The \<^verbatim>\<open>try\<close> block of \<^verbatim>\<open>process_pair\<close>: the stages run in turn until one raises; the
  result is that exception, if any, and the stages that were run.
\<close>

fun run_stages :: "(stage \<Rightarrow> exn option) \<Rightarrow> stage list \<Rightarrow> exn option \<times> stage list" where
  "run_stages outcome [] = (None, [])"
| "run_stages outcome (s # rest) =
     (case outcome s of
        Some e \<Rightarrow> (Some e, [s])
      | None \<Rightarrow> (case run_stages outcome rest of (r, executed) \<Rightarrow> (r, s # executed)))"

text \<open>
  \<^verbatim>\<open>process_pair\<close>: the \<^verbatim>\<open>except\<close> clause logs the exception and its trace and keeps
  \<^verbatim>\<open>str(e)\<close> in the result; the function returns in both cases.
\<close>

definition process_pair :: "env \<Rightarrow> string \<Rightarrow> processing_result \<times> stage list" where
  "process_pair w work_dir =
     (case run_stages (stage_outcome w) pipeline of
        (Some e, executed) \<Rightarrow>
          (\<lparr>success = False, interferogram = None, coherence_path = None,
            displacement = None, unwrapped = None,
            statistics = \<lparr>mean_coherence = None, mean_displacement_mm = None,
                           min_displacement_mm = None, max_displacement_mm = None\<rparr>,
            processing_error = Some (exc_msg e)\<rparr>, executed)
      | (None, executed) \<Rightarrow>
          (\<lparr>success = True, interferogram = None,
            coherence_path = Some (path_join (path_join work_dir ''geocoded'') ''coherence.tif''),
            displacement = Some (path_join (path_join work_dir ''geocoded'') ''displacement.tif''),
            unwrapped = Some (path_join (path_join work_dir ''unwrapped'') ''unwrapped.tif''),
            statistics = raster_statistics w,
            processing_error = None\<rparr>, executed))"

record result_statistics =
  res_mean_coherence :: "real option"
  res_mean_displacement_mm :: "real option"
  res_min_displacement_mm :: "real option"
  res_max_displacement_mm :: "real option"
  valid_points :: nat

record results =
  interferogram_url :: "string option"
  coherence_url :: "string option"
  displacement_url :: "string option"
  displacement_points :: "sample list"
  res_statistics :: result_statistics

text \<open>The response, without \<^verbatim>\<open>processing_time_seconds\<close> (the clock is not modelled).\<close>

record response =
  response_job_id :: string
  status :: string
  response_results :: "results option"
  response_error :: "string option"
  error_trace :: "string list option"

definition job_id_or_unknown :: "job_input \<Rightarrow> string" where
  "job_id_or_unknown ji = (case job_id ji of None \<Rightarrow> ''unknown'' | Some s \<Rightarrow> s)"

text \<open>Step 5 of the handler and the response's results.\<close>

definition build_results :: "processing_result \<Rightarrow> result_urls \<Rightarrow> sample list \<Rightarrow> results" where
  "build_results pr urls displacement_results =
     \<lparr>interferogram_url = url_interferogram urls,
      coherence_url = url_coherence urls,
      displacement_url = url_displacement urls,
      displacement_points = displacement_results,
      res_statistics =
        \<lparr>res_mean_coherence = mean_coherence (statistics pr),
         res_mean_displacement_mm = mean_displacement_mm (statistics pr),
         res_min_displacement_mm = min_displacement_mm (statistics pr),
         res_max_displacement_mm = max_displacement_mm (statistics pr),
         valid_points = length (filter valid displacement_results)\<rparr>\<rparr>"

definition upload_step ::
    "env \<Rightarrow> processing_result \<Rightarrow> sample list \<Rightarrow> step list \<Rightarrow> (exn + results) \<times> step list" where
  "upload_step w pr displacement_results steps =
     (if truthy (storage_bucket w)
      then (case upload w of
              Inl e \<Rightarrow> (Inl (through_handler e), steps @ [Upload])
            | Inr urls \<Rightarrow> (Inr (build_results pr urls displacement_results), steps @ [Upload]))
      else (Inr (build_results pr
                  \<lparr>url_interferogram = interferogram pr, url_coherence = coherence_path pr,
                   url_displacement = displacement pr, url_unwrapped = unwrapped pr\<rparr>
                  displacement_results), steps))"

text \<open>Step 4: the points are extracted when the list is not empty and there is a raster.\<close>

definition extract_step ::
    "env \<Rightarrow> job_input \<Rightarrow> processing_result \<Rightarrow> step list \<Rightarrow> (exn + results) \<times> step list" where
  "extract_step w ji pr steps =
     (if (case points ji of None \<Rightarrow> False | Some ps \<Rightarrow> ps \<noteq> []) \<and> truthy (displacement pr)
      then (case extraction w of
              Inl e \<Rightarrow> (Inl (through_handler e), steps @ [ExtractPoints])
            | Inr displacement_results \<Rightarrow>
                upload_step w pr displacement_results (steps @ [ExtractPoints]))
      else upload_step w pr [] steps)"

text \<open>
  Steps 2 and 3: the processor is created and the pipeline run. \<^verbatim>\<open>_verify_isce3\<close>
  raises its RuntimeError inside \<^verbatim>\<open>except ImportError as e\<close>, with \<^verbatim>\<open>str(e)\<close> in the
  message.
\<close>

definition process_step :: "env \<Rightarrow> job_input \<Rightarrow> step list \<Rightarrow> (exn + results) \<times> step list" where
  "process_step w ji steps =
     (case isce3_import_error w of
        Some ie \<Rightarrow>
          (Inl \<lparr>exc_class = ''RuntimeError'',
                exc_msg = ''ISCE3 not available: '' @ exc_msg ie,
                exc_tb = [''handler'', ''__init__'', ''_verify_isce3''],
                exc_context = during_handling ''_verify_isce3'' ie\<rparr>,
           steps @ [InitProcessor])
      | None \<Rightarrow>
          (case process_pair w (path_join ''/data/output'' (job_id_or_unknown ji)) of
             (pr, executed) \<Rightarrow>
               if \<not> success pr
               then (Inl (raise_in_handler ''RuntimeError''
                           (''ISCE3 processing failed: ''
                              @ (case processing_error pr of None \<Rightarrow> ''None'' | Some m \<Rightarrow> m))),
                     steps @ [InitProcessor] @ map Run executed)
               else extract_step w ji pr (steps @ [InitProcessor] @ map Run executed)))"

text \<open>
  The \<^verbatim>\<open>try\<close> block of \<^verbatim>\<open>handler\<close>: the results of the response, or the exception
  that reaches the \<^verbatim>\<open>except\<close> clause, and the steps taken. Creating the job
  directory is taken to succeed.
\<close>

definition handler_try :: "env \<Rightarrow> job_input \<Rightarrow> (exn + results) \<times> step list" where
  "handler_try w ji =
     (case validate_input ji of
        Invalid err \<Rightarrow> (Inl (raise_in_handler ''ValueError'' (''Invalid input: '' @ err)), [Validate])
      | Valid \<Rightarrow>
     (case reference_url ji of
        None \<Rightarrow> (Inl (raise_in_handler ''KeyError'' (repr_str ''reference_url'')), [Validate])
      | Some url \<Rightarrow>
     (case download_reference w of
        Inl e \<Rightarrow> (Inl (through_handler e), [Validate, DownloadReference])
      | Inr ref_path \<Rightarrow>
     (case secondary_url ji of
        None \<Rightarrow> (Inl (raise_in_handler ''KeyError'' (repr_str ''secondary_url'')),
                 [Validate, DownloadReference])
      | Some url2 \<Rightarrow>
     (case download_secondary w of
        Inl e \<Rightarrow> (Inl (through_handler e), [Validate, DownloadReference, DownloadSecondary])
      | Inr sec_path \<Rightarrow>
          process_step w ji [Validate, DownloadReference, DownloadSecondary])))))"

text \<open>
  \<^verbatim>\<open>handler\<close>: the response and everything done, the notification of the webhook
  (which never raises) and the cleanup of the \<^verbatim>\<open>finally\<close> clause included.
\<close>

definition handler :: "env \<Rightarrow> job_input \<Rightarrow> response \<times> step list" where
  "handler w ji =
     (case handler_try w ji of
        (r, steps) \<Rightarrow>
          ((case r of
              Inr res \<Rightarrow>
                \<lparr>response_job_id = job_id_or_unknown ji, status = ''success'',
                 response_results = Some res, response_error = None, error_trace = None\<rparr>
            | Inl e \<Rightarrow>
                \<lparr>response_job_id = job_id_or_unknown ji, status = ''error'',
                 response_results = None, response_error = Some (exc_msg e),
                 error_trace = Some (format_exc e)\<rparr>),
           steps @ (if truthy (webhook_url ji) then [NotifyWebhook] else []) @ [Cleanup]))"

section \<open>Jobs in which something raises\<close>

text \<open>
  The run reaches the pipeline: validation passes, both URLs are present, both
  downloads return and ISCE3 can be imported.
\<close>

definition reaches_pipeline :: "env \<Rightarrow> job_input \<Rightarrow> bool" where
  "reaches_pipeline w ji \<longleftrightarrow>
     validate_input ji = Valid \<and> reference_url ji \<noteq> None \<and> secondary_url ji \<noteq> None
     \<and> \<not> isl (download_reference w) \<and> \<not> isl (download_secondary w)
     \<and> isce3_import_error w = None"

definition wants_points :: "job_input \<Rightarrow> bool" where
  "wants_points ji = (case points ji of None \<Rightarrow> False | Some ps \<Rightarrow> ps \<noteq> [])"

text \<open>
  Something raises in the job: a step before the pipeline, a pipeline stage, the point
  extraction of a job with points, or the upload when a storage bucket is set.
\<close>

definition job_raises :: "env \<Rightarrow> job_input \<Rightarrow> bool" where
  "job_raises w ji \<longleftrightarrow>
     \<not> reaches_pipeline w ji
     \<or> (\<exists>s \<in> set pipeline. stage_outcome w s \<noteq> None)
     \<or> (wants_points ji \<and> isl (extraction w))
     \<or> (truthy (storage_bucket w) \<and> isl (upload w))"

section \<open>Concrete inputs\<close>

definition demo_raster :: raster where
  "demo_raster = \<lparr>disp_data = \<lparr>shape0 = 2, shape1 = 2, cell = (\<lambda>i j. Num 1)\<rparr>,
     band_nodata = Some (- 9999),
     gt = \<lparr>gt0 = 4, gt1 = 1 / 10000, gt2 = 0, gt3 = 45, gt4 = 0, gt5 = - (1 / 10000)\<rparr>\<rparr>"

definition inside_point :: point where
  "inside_point = \<lparr>pid = Some ''p3'', plat = Some (Num 44.99995), plon = Some (Num 4.00005)\<rparr>"

definition far_lon :: real where
  "far_lon = 10 ^ 308"

definition far_point :: point where
  "far_point = \<lparr>pid = Some ''far'', plat = Some (Num 45), plon = Some (Num far_lon)\<rparr>"

definition flat_phase :: "real ndarray" where
  "flat_phase = \<lparr>shape0 = 1, shape1 = 2, cell = (\<lambda>i j. 2)\<rparr>"

definition small_bbox :: bbox where
  "small_bbox = \<lparr>north = 0.00015, south = 0, east = 0.00035, west = 0\<rparr>"

definition nodata_edge :: "real ndarray" where
  "nodata_edge = \<lparr>shape0 = 1, shape1 = 2, cell = (\<lambda>i j. if j = 0 then - 9999 else 1 / 2)\<rparr>"

definition demo_bbox :: bbox where
  "demo_bbox = \<lparr>north = 45, south = 44, east = 5, west = 4\<rparr>"

definition near_bbox :: bbox where
  "near_bbox = \<lparr>north = 45.001, south = 44.001, east = 5.001, west = 4.001\<rparr>"

definition timeout_exn :: exn where
  "timeout_exn = \<lparr>exc_class = ''ConnectionError'', exc_msg = ''Connection broken'',
     exc_tb = [''download_granule'', ''iter_content''], exc_context = []\<rparr>"

definition ok_env :: env where
  "ok_env = \<lparr>download_reference = Inr ''/data/input/REF.zip'',
     download_secondary = Inr ''/data/input/SEC.zip'',
     isce3_import_error = None,
     stage_outcome = (\<lambda>s. None),
     raster_statistics = \<lparr>mean_coherence = None, mean_displacement_mm = None,
                           min_displacement_mm = None, max_displacement_mm = None\<rparr>,
     extraction = Inr [],
     storage_bucket = None,
     upload = Inr \<lparr>url_interferogram = None, url_coherence = None,
                    url_displacement = None, url_unwrapped = None\<rparr>\<rparr>"

fun stage_function :: "stage \<Rightarrow> string" where
  "stage_function ImportModules = ''import''"
| "stage_function CreateDirectories = ''_create_directories''"
| "stage_function PrepareDem = ''_prepare_dem''"
| "stage_function ExtractReference = ''_extract_safe''"
| "stage_function ExtractSecondary = ''_extract_safe''"
| "stage_function Coregister = ''_coregister''"
| "stage_function FormInterferogram = ''_form_interferogram''"
| "stage_function FilterPhase = ''_filter_phase''"
| "stage_function UnwrapPhase = ''_unwrap_phase''"
| "stage_function Geocode = ''_geocode''"
| "stage_function CalculateStatistics = ''_calculate_statistics''"

definition stage_exn :: "stage \<Rightarrow> exn" where
  "stage_exn s = \<lparr>exc_class = ''RuntimeError'', exc_msg = ''boom'',
     exc_tb = [''process_pair'', stage_function s], exc_context = []\<rparr>"

definition failing_env :: "stage \<Rightarrow> env" where
  "failing_env s = ok_env\<lparr>stage_outcome := (\<lambda>t. if t = s then Some (stage_exn s) else None)\<rparr>"

definition url_job :: job_input where
  "url_job = \<lparr>job_id = Some ''j1'', infrastructure_id = None,
     reference_granule = Some ''REF'', secondary_granule = Some ''SEC'',
     reference_url = Some ''https://example.org/ref'',
     secondary_url = Some ''https://example.org/sec'',
     reference_path = None, secondary_path = None,
     points = None, webhook_url = None\<rparr>"

definition path_job :: job_input where
  "path_job = \<lparr>job_id = Some ''j1'', infrastructure_id = None,
     reference_granule = Some ''REF'', secondary_granule = Some ''SEC'',
     reference_url = None, secondary_url = None,
     reference_path = Some ''/in/REF.zip'', secondary_path = Some ''/in/SEC.zip'',
     points = None, webhook_url = None\<rparr>"

definition anonymous_path_job :: job_input where
  "anonymous_path_job = \<lparr>job_id = None, infrastructure_id = None,
     reference_granule = Some ''REF'', secondary_granule = Some ''SEC'',
     reference_url = None, secondary_url = None,
     reference_path = Some ''/in/REF.zip'', secondary_path = Some ''/in/SEC.zip'',
     points = None, webhook_url = None\<rparr>"

section \<open>Properties of the point sampler\<close>

lemma sample_loop_all_ok:
  "\<forall>p \<in> set ps. sample_point r c p = Inr (f p) \<Longrightarrow>
     sample_loop r c ps acc = Inr (acc @ map f ps)"
  by (induction ps arbitrary: acc) auto

lemma sample_loop_raises:
  "sample_loop r c ps acc = Inl e \<Longrightarrow> \<exists>q \<in> set ps. sample_point r c q = Inl e"
  by (induction ps arbitrary: acc) (auto split: sum.splits)

text \<open>
  What the loop does for the points it can index: a point whose index is computed and
  lies outside the array gets the entry for a point outside the raster, and a list of
  points none of which raises gets one entry per point, in order.
\<close>

lemma outside_index_entry:
  assumes "plat p = Some la" and "plon p = Some lo"
    and "pixel_index (gt r) lo la = Inr (px, py)"
    and "px < 0 \<or> px \<ge> int (shape1 (disp_data r)) \<or> py < 0 \<or> py \<ge> int (shape0 (disp_data r))"
  shows "sample_point r coh_data p =
           Inr \<lparr>point_id = pid p, displacement_mm = None, coherence = None, valid = False,
                error = Some ''Point outside raster bounds'', lat = None, lon = None\<rparr>"
  using assms by (simp add: sample_point_def outside_extent_def outside_entry_def)

lemma one_entry_per_point_when_none_raises:
  assumes "\<forall>p \<in> set pts. \<exists>s. sample_point r coh_data p = Inr s"
  shows "\<exists>rs. extract_displacement_at_points (Some r) coh_data pts = Inr rs
           \<and> length rs = length pts
           \<and> (\<forall>i < length pts. sample_point r coh_data (pts ! i) = Inr (rs ! i))"
proof -
  define f where "f p = projr (sample_point r coh_data p)" for p
  have ok: "\<forall>p \<in> set pts. sample_point r coh_data p = Inr (f p)"
    using assms by (auto simp: f_def)
  then have "sample_loop r coh_data pts [] = Inr ([] @ map f pts)"
    by (rule sample_loop_all_ok)
  then have "extract_displacement_at_points (Some r) coh_data pts = Inr (map f pts)"
    by (simp add: extract_displacement_at_points_def)
  moreover have "\<forall>i < length pts. sample_point r coh_data (pts ! i) = Inr (map f pts ! i)"
    using ok by simp
  ultimately show ?thesis by simp
qed

lemma far_quotient_overflows:
  "pixel_coordinate (Num far_lon) 4 (1 / 10000) = Inl OverflowError"
  by (simp add: pixel_coordinate_def float_sub_def float_div_def float_to_int_def to_float_def
      overflow_bound_def far_lon_def)

lemma far_point_body: "sample_point demo_raster None far_point = Inl OverflowError"
  by (simp add: sample_point_def far_point_def pixel_index_def demo_raster_def
      far_quotient_overflows)

text \<open>
  C3. A point outside the raster, at longitude \<open>10^308\<close> on a raster with pixels of
  0.0001 degrees: the quotient overflows to infinity, \<^verbatim>\<open>int\<close> raises OverflowError in
  the statement that computes the index, before the bounds check, and the sampler
  raises instead of returning the entry for a point outside the raster.
\<close>

theorem far_point_raises:
  "far_lon = 10 ^ 308
   \<and> pixel_index (gt demo_raster) (Num far_lon) (Num 45) = Inl OverflowError
   \<and> sample_point demo_raster None far_point = Inl OverflowError
   \<and> extract_displacement_at_points (Some demo_raster) None [far_point] = Inl OverflowError"
proof -
  have "pixel_index (gt demo_raster) (Num far_lon) (Num 45) = Inl OverflowError"
    by (simp add: pixel_index_def demo_raster_def far_quotient_overflows)
  moreover have "extract_displacement_at_points (Some demo_raster) None [far_point]
      = Inl OverflowError"
    by (simp add: extract_displacement_at_points_def far_point_body)
  ultimately show ?thesis by (simp add: far_point_body far_lon_def)
qed

text \<open>
  C4. A point inside the raster followed by the point at longitude \<open>10^308\<close>: alone,
  the first point gets its entry; with the second point in the list the sampler
  raises and returns no entry at all.
\<close>

theorem far_point_aborts_extraction:
  "sample_point demo_raster None inside_point =
     Inr \<lparr>point_id = Some ''p3'', displacement_mm = Some (Num 1), coherence = None,
          valid = True, error = None, lat = Some (Num 44.99995), lon = Some (Num 4.00005)\<rparr>
   \<and> extract_displacement_at_points (Some demo_raster) None [inside_point] =
     Inr [\<lparr>point_id = Some ''p3'', displacement_mm = Some (Num 1), coherence = None,
           valid = True, error = None, lat = Some (Num 44.99995), lon = Some (Num 4.00005)\<rparr>]
   \<and> extract_displacement_at_points (Some demo_raster) None [inside_point, far_point] =
     Inl OverflowError"
proof -
  have inside: "sample_point demo_raster None inside_point =
     Inr \<lparr>point_id = Some ''p3'', displacement_mm = Some (Num 1), coherence = None,
          valid = True, error = None, lat = Some (Num 44.99995), lon = Some (Num 4.00005)\<rparr>"
    by (simp add: sample_point_def inside_point_def pixel_index_def pixel_coordinate_def
        float_sub_def float_div_def float_to_int_def to_float_def overflow_bound_def
        demo_raster_def py_int_def outside_extent_def read_entry_def disp_nodata_def)
  then show ?thesis
    by (simp add: extract_displacement_at_points_def far_point_body)
qed

section \<open>Properties of the geocoding stage\<close>

lemma floor_top:
  fixes y :: real
  assumes "y \<le> real n - 1" and "\<not> \<lfloor>y\<rfloor> + 1 < int n"
  shows "y - of_int \<lfloor>y\<rfloor> = 0"
proof -
  have "real_of_int \<lfloor>y\<rfloor> \<le> y" by simp
  moreover from assms(2) have "real n - 1 \<le> real_of_int \<lfloor>y\<rfloor>"
    by linarith
  ultimately show ?thesis using assms(1) by linarith
qed

lemma interp_linear_const:
  assumes const: "\<forall>i < shape0 a. \<forall>j < shape1 a. cell a i j = c"
    and y: "0 \<le> y" "y \<le> real (shape0 a) - 1"
    and x: "0 \<le> x" "x \<le> real (shape1 a) - 1"
  shows "interp_linear a y x = c"
proof -
  define i j where "i = \<lfloor>y\<rfloor>" and "j = \<lfloor>x\<rfloor>"
  define u v where "u = y - of_int i" and "v = x - of_int j"
  have i0: "0 \<le> i" and j0: "0 \<le> j" using y(1) x(1) by (simp_all add: i_def j_def)
  have ilt: "i < int (shape0 a)" using y(2) unfolding i_def by linarith
  have jlt: "j < int (shape1 a)" using x(2) unfolding j_def by linarith
  have inside: "cell_or_cval a k l = c"
    if "0 \<le> k" "k < int (shape0 a)" "0 \<le> l" "l < int (shape1 a)" for k l
    using that const by (simp add: cell_or_cval_def)
  have c00: "cell_or_cval a i j = c" using inside i0 ilt j0 jlt by simp
  have c01: "v * cell_or_cval a i (j + 1) = v * c"
  proof (cases "j + 1 < int (shape1 a)")
    case True
    then show ?thesis using inside [of i "j + 1"] i0 ilt j0 by simp
  next
    case False
    then have "v = 0" using floor_top [of x "shape1 a"] x(2) by (simp add: v_def j_def)
    then show ?thesis by simp
  qed
  have u0: "u = 0" if "\<not> i + 1 < int (shape0 a)"
    using floor_top [of y "shape0 a"] y(2) that by (simp add: u_def i_def)
  have c10: "u * cell_or_cval a (i + 1) j = u * c"
  proof (cases "i + 1 < int (shape0 a)")
    case True
    then show ?thesis using inside [of "i + 1" j] i0 j0 jlt by simp
  next
    case False
    then show ?thesis using u0 by simp
  qed
  have c11: "u * (v * cell_or_cval a (i + 1) (j + 1)) = u * (v * c)"
  proof (cases "i + 1 < int (shape0 a)")
    case False
    then show ?thesis using u0 by simp
  next
    case True
    show ?thesis
    proof (cases "j + 1 < int (shape1 a)")
      case True
      with \<open>i + 1 < int (shape0 a)\<close> show ?thesis
        using inside [of "i + 1" "j + 1"] i0 j0 by simp
    next
      case False
      then have "v = 0" using floor_top [of x "shape1 a"] x(2) by (simp add: v_def j_def)
      then show ?thesis by simp
    qed
  qed
  have "interp_linear a y x =
      (1 - u) * ((1 - v) * cell_or_cval a i j + v * cell_or_cval a i (j + 1))
      + (u * ((1 - v) * cell_or_cval a (i + 1) j) + u * (v * cell_or_cval a (i + 1) (j + 1)))"
    by (simp add: interp_linear_def Let_def i_def j_def u_def v_def algebra_simps)
  also have "\<dots> = (1 - u) * ((1 - v) * c + v * c) + (u * ((1 - v) * c) + u * (v * c))"
    using c00 c01 c10 c11 by auto
  also have "\<dots> = c" by (simp add: algebra_simps)
  finally show ?thesis .
qed

lemma zoom_coordinate_range:
  assumes "0 < n_in" and "i < nat n_out"
  shows "0 \<le> real i * zoom_ratio n_in n_out \<and> real i * zoom_ratio n_in n_out \<le> real n_in - 1"
proof (cases "n_out - 1 = 0")
  case True
  with assms have "i = 0" by simp
  with assms(1) show ?thesis by simp
next
  case False
  with assms(2) have pos: "0 < real_of_int n_out - 1" by linarith
  have le: "real i \<le> real_of_int n_out - 1" using assms(2) by linarith
  have n: "0 \<le> real n_in - 1" using assms(1) by simp
  have "real i * ((real n_in - 1) / (real_of_int n_out - 1))
      \<le> (real_of_int n_out - 1) * ((real n_in - 1) / (real_of_int n_out - 1))"
    using le n pos by (intro mult_right_mono) simp_all
  also have "\<dots> = real n_in - 1" using pos by simp
  finally have "real i * ((real n_in - 1) / (real_of_int n_out - 1)) \<le> real n_in - 1" .
  moreover have "0 \<le> real i * ((real n_in - 1) / (real_of_int n_out - 1))"
    using n pos by simp
  ultimately show ?thesis using False by (simp add: zoom_ratio_def)
qed

lemma zoom_const:
  assumes const: "\<forall>i < shape0 a. \<forall>j < shape1 a. cell a i j = c"
    and ne: "0 < shape0 a" "0 < shape1 a"
    and z: "zoom a zy zx = Inr r"
    and ij: "i < shape0 r" "j < shape1 r"
  shows "cell r i j = c"
proof -
  define out0 out1 where "out0 = py_round (real (shape0 a) * zy)"
    and "out1 = py_round (real (shape1 a) * zx)"
  from z have r: "r = \<lparr>shape0 = nat out0, shape1 = nat out1,
      cell = (\<lambda>i j. interp_linear a (real i * zoom_ratio (shape0 a) out0)
                                    (real j * zoom_ratio (shape1 a) out1))\<rparr>"
    by (auto simp: zoom_def Let_def out0_def out1_def split: if_splits)
  from ij r have i: "i < nat out0" and j: "j < nat out1" by simp_all
  from r have "cell r i j = interp_linear a (real i * zoom_ratio (shape0 a) out0)
      (real j * zoom_ratio (shape1 a) out1)" by simp
  also have "\<dots> = c"
    using zoom_coordinate_range [OF ne(1) i] zoom_coordinate_range [OF ne(2) j]
    by (intro interp_linear_const [OF const]) simp_all
  finally show ?thesis .
qed

text \<open>
  C1. Every phase value is converted to \<open>p * 0.0555041 * 1000 / (4 * pi)\<close> millimetres:
  cell by cell in the product \<^verbatim>\<open>phase * RAD_TO_MM\<close>, and, for a phase raster of
  constant value \<open>p\<close>, in every cell of the resampled displacement array the
  geocoding stage writes.
\<close>

theorem phase_to_displacement_formula:
  "cell (scale_array phase RAD_TO_MM) i j = cell phase i j * 0.0555041 * 1000 / (4 * pi)
   \<and> ((\<forall>k < shape0 phase. \<forall>l < shape1 phase. cell phase k l = p)
        \<longrightarrow> geocode phase coh b = Inr g
        \<longrightarrow> (\<forall>k < shape0 (disp_resampled g). \<forall>l < shape1 (disp_resampled g).
               cell (disp_resampled g) k l = p * 0.0555041 * 1000 / (4 * pi)))"
proof (intro conjI impI allI)
  show "cell (scale_array phase RAD_TO_MM) i j = cell phase i j * 0.0555041 * 1000 / (4 * pi)"
    by (simp add: scale_array_def RAD_TO_MM_def SENTINEL1_WAVELENGTH_M_def)
next
  fix k l
  assume const: "\<forall>k < shape0 phase. \<forall>l < shape1 phase. cell phase k l = p"
    and g: "geocode phase coh b = Inr g"
    and k: "k < shape0 (disp_resampled g)" and l: "l < shape1 (disp_resampled g)"
  let ?d = "scale_array phase RAD_TO_MM"
  have dconst: "\<forall>k < shape0 ?d. \<forall>l < shape1 ?d. cell ?d k l = p * RAD_TO_MM"
    using const by (simp add: scale_array_def)
  from g have ne: "0 < shape0 ?d" "0 < shape1 ?d"
    by (auto simp: geocode_def Let_def split: if_splits)
  from g obtain zy zx where z: "zoom ?d zy zx = Inr (disp_resampled g)"
    by (auto simp: geocode_def Let_def split: if_splits sum.splits)
  from zoom_const [OF dconst ne z k l]
  show "cell (disp_resampled g) k l = p * 0.0555041 * 1000 / (4 * pi)"
    by (simp add: RAD_TO_MM_def SENTINEL1_WAVELENGTH_M_def)
qed


theorem phase_to_displacement_formula_witness:
  "\<exists>g. geocode flat_phase flat_phase small_bbox = Inr g
      \<and> shape0 (disp_resampled g) = 1 \<and> shape1 (disp_resampled g) = 3
      \<and> (\<forall>k < shape0 (disp_resampled g). \<forall>l < shape1 (disp_resampled g).
            cell (disp_resampled g) k l = 2 * 0.0555041 * 1000 / (4 * pi))"
proof -
  have "\<exists>g. geocode flat_phase flat_phase small_bbox = Inr g
      \<and> shape0 (disp_resampled g) = 1 \<and> shape1 (disp_resampled g) = 3"
    by (simp add: geocode_def Let_def small_bbox_def py_int_def flat_phase_def zoom_def
        py_round_def scale_array_def)
  then obtain g where g: "geocode flat_phase flat_phase small_bbox = Inr g"
    "shape0 (disp_resampled g) = 1" "shape1 (disp_resampled g) = 3" by blast
  have const: "\<forall>k < shape0 flat_phase. \<forall>l < shape1 flat_phase. cell flat_phase k l = 2"
    by (simp add: flat_phase_def)
  from phase_to_displacement_formula [of flat_phase 0 0 2 flat_phase small_bbox g] const g(1)
  have "\<forall>k < shape0 (disp_resampled g). \<forall>l < shape1 (disp_resampled g).
      cell (disp_resampled g) k l = 2 * 0.0555041 * 1000 / (4 * pi)"
    by blast
  with g show ?thesis by (intro exI [of _ g]) simp
qed

section \<open>Properties of the DEM provider, the stager and the download\<close>

lemma demo_bbox_filename: "dem_filename demo_bbox = ''dem_43.90_3.90_45.10_5.10.tif''"
  by (simp add: dem_filename_def expand_def margin_def demo_bbox_def fmt2_def py_round_def
      digit_char_def Let_def)

lemma near_bbox_filename: "dem_filename near_bbox = ''dem_43.90_3.90_45.10_5.10.tif''"
  by (simp add: dem_filename_def expand_def margin_def near_bbox_def fmt2_def py_round_def
      digit_char_def Let_def)

lemma demo_bbox_fields:
  "north demo_bbox = 45" "south demo_bbox = 44" "east demo_bbox = 5" "west demo_bbox = 4"
  by (simp_all add: demo_bbox_def)

lemma demo_bbox_path:
  "path_join ''/data/dem'' (dem_filename demo_bbox) = ''/data/dem/dem_43.90_3.90_45.10_5.10.tif''"
  by (simp add: demo_bbox_filename path_join_def)

lemma prepare_dem_returns_existing:
  assumes "prepare_dem dem_dir fs warp b = Inr (p, fs', acts)"
  shows "p = path_join dem_dir (dem_filename b) \<and> fs' p \<noteq> None"
  using assms
  by (auto simp: prepare_dem_def create_synthetic_dem_def Let_def split: if_splits sum.splits)

text \<open>
  C5. When a call of \<^verbatim>\<open>_prepare_dem\<close> has returned, a second call for a bounding box
  with the same cache file name (the margin-expanded coordinates printed with two
  decimals) returns the same path, leaves the files as they are and neither fetches
  nor creates anything, whatever the network would answer.
\<close>

theorem prepare_dem_idempotent:
  assumes "prepare_dem dem_dir fs warp1 b1 = Inr (p1, fs1, acts1)"
    and "dem_filename b1 = dem_filename b2"
  shows "prepare_dem dem_dir fs1 warp2 b2 = Inr (p1, fs1, [])"
proof -
  from prepare_dem_returns_existing [OF assms(1)]
  have "p1 = path_join dem_dir (dem_filename b2)" and "fs1 p1 \<noteq> None"
    using assms(2) by auto
  then show ?thesis by (auto simp: prepare_dem_def Let_def)
qed

theorem prepare_dem_idempotent_witness:
  "dem_filename demo_bbox = dem_filename near_bbox
   \<and> (\<exists>fs1. prepare_dem ''/data/dem'' Map.empty WarpRaises demo_bbox =
          Inr (''/data/dem/dem_43.90_3.90_45.10_5.10.tif'', fs1, [Fetch, CreateSynthetic])
        \<and> prepare_dem ''/data/dem'' fs1 WarpDataset near_bbox =
          Inr (''/data/dem/dem_43.90_3.90_45.10_5.10.tif'', fs1, []))"
proof -
  have key: "dem_filename demo_bbox = dem_filename near_bbox"
    by (simp add: demo_bbox_filename near_bbox_filename)
  have "\<exists>fs1. prepare_dem ''/data/dem'' Map.empty WarpRaises demo_bbox =
      Inr (''/data/dem/dem_43.90_3.90_45.10_5.10.tif'', fs1, [Fetch, CreateSynthetic])"
    by (simp add: prepare_dem_def demo_bbox_path create_synthetic_dem_def
        Let_def demo_bbox_fields py_int_def)
  then obtain fs1 where first: "prepare_dem ''/data/dem'' Map.empty WarpRaises demo_bbox =
      Inr (''/data/dem/dem_43.90_3.90_45.10_5.10.tif'', fs1, [Fetch, CreateSynthetic])" by blast
  from prepare_dem_idempotent [OF first key, of WarpDataset] first key
  show ?thesis by blast
qed

text \<open>
  C6. The run of \<^verbatim>\<open>_prepare_dem\<close> on the bounding box 44..45 N, 4..5 E with a failing
  download: the synthetic raster has the value 100 and is stored under the name of the
  margin-expanded box, but its extent is that of the box without margin, whereas a
  successful download covers 43.9..45.1 N, 3.9..5.1 E.
\<close>

theorem synthetic_dem_misses_margin:
  "\<exists>fs' d. prepare_dem ''/data/dem'' Map.empty WarpRaises demo_bbox =
        Inr (''/data/dem/dem_43.90_3.90_45.10_5.10.tif'', fs', [Fetch, CreateSynthetic])
     \<and> fs' ''/data/dem/dem_43.90_3.90_45.10_5.10.tif'' = Some (Synthetic d)
     \<and> syn_value d = 100
     \<and> dem_extent (Synthetic d) = (4, 44.0001, 4.9999, 45)
     \<and> (\<exists>fs''. prepare_dem ''/data/dem'' Map.empty WarpDataset demo_bbox =
            Inr (''/data/dem/dem_43.90_3.90_45.10_5.10.tif'', fs'', [Fetch])
          \<and> map_option dem_extent (fs'' ''/data/dem/dem_43.90_3.90_45.10_5.10.tif'')
              = Some (3.9, 43.9, 5.1, 45.1))"
  by (simp add: prepare_dem_def demo_bbox_path create_synthetic_dem_def
      Let_def demo_bbox_fields py_int_def expand_def margin_def)

text \<open>
  C7. The run of \<^verbatim>\<open>_geocode\<close> on a one-row raster holding the nodata value next to a
  measured value, resampled from two to three columns: the middle output cell is the
  mean of the nodata value and its neighbour, and the nodata cell of the phase leaves
  the displacement output scaled by \<^verbatim>\<open>RAD_TO_MM\<close>, so it no longer equals the nodata
  value declared on the band.
\<close>

theorem geocode_blends_nodata:
  "\<exists>g. geocode nodata_edge nodata_edge small_bbox = Inr g
     \<and> shape0 (coh_resampled g) = 1 \<and> shape1 (coh_resampled g) = 3
     \<and> cell (coh_resampled g) 0 0 = - 9999
     \<and> cell (coh_resampled g) 0 1 = - 4999.25
     \<and> cell (coh_resampled g) 0 2 = 0.5
     \<and> cell (disp_resampled g) 0 0 = - 9999 * RAD_TO_MM
     \<and> cell (disp_resampled g) 0 1 = - 4999.25 * RAD_TO_MM
     \<and> cell (disp_resampled g) 0 0 \<noteq> - 9999
     \<and> nodata_out g = - 9999"
proof -
  have "4 * pi < 55.5041" using pi_less_4 by simp
  then have "RAD_TO_MM \<noteq> 1"
    by (simp add: RAD_TO_MM_def SENTINEL1_WAVELENGTH_M_def)
  then show ?thesis
    by (simp add: geocode_def Let_def small_bbox_def py_int_def nodata_edge_def zoom_def
        py_round_def scale_array_def zoom_ratio_def interp_linear_def cell_or_cval_def)
qed

text \<open>
  C8 (as the code has it). For an archive input whose extraction does not raise, when
  no \<^verbatim>\<open>*.SAFE\<close> entry is found after extraction the stager returns the path of the
  extraction directory \<^verbatim>\<open>work_dir/slc/<archive stem>\<close>.
\<close>

theorem extract_safe_returns_extract_dir:
  assumes "lower (path_suffix safe_path) = ''.zip''"
    and "extract_safe work_dir listing zf safe_path = (r, listing')"
    and "zf \<noteq> ZipRaises \<or> path_stem safe_path \<in> set listing"
    and "glob_SAFE listing' = []"
  shows "r = Inr (path_join (path_join work_dir ''slc'') (path_stem safe_path))"
  using assms
  by (auto simp: extract_safe_def found_or_extract_dir_def Let_def
      split: if_splits zip_outcome.splits)

theorem extract_safe_returns_extract_dir_witness:
  "lower (path_suffix ''/data/input/S1A.zip'') = ''.zip''
   \<and> glob_SAFE [''readme.txt''] = []
   \<and> extract_safe ''/data/output/j1'' [] (ZipEntries [''readme.txt'']) ''/data/input/S1A.zip''
       = (Inr ''/data/output/j1/slc/S1A'', [''readme.txt''])"
proof -
  have z: "lower (path_suffix ''/data/input/S1A.zip'') = ''.zip''"
    by (simp add: path_suffix_def path_name_def after_last_dot_def lower_def lower_char_def)
  have g: "glob_SAFE [''readme.txt''] = []"
    by (simp add: glob_SAFE_def endswith_def)
  have l: "snd (extract_safe ''/data/output/j1'' [] (ZipEntries [''readme.txt''])
      ''/data/input/S1A.zip'') = [''readme.txt'']"
    by (simp add: extract_safe_def z Let_def)
  have st: "path_stem ''/data/input/S1A.zip'' = ''S1A''"
    by (simp add: path_stem_def path_name_def after_last_dot_def)
  from extract_safe_returns_extract_dir [OF z _ _ g,
      of "''/data/output/j1''" "[]" "ZipEntries [''readme.txt'']"
         "fst (extract_safe ''/data/output/j1'' [] (ZipEntries [''readme.txt''])
            ''/data/input/S1A.zip'')"] l
  have "fst (extract_safe ''/data/output/j1'' [] (ZipEntries [''readme.txt''])
      ''/data/input/S1A.zip'') = Inr ''/data/output/j1/slc/S1A''"
    by (simp add: prod_eq_iff st path_join_def)
  with z g l show ?thesis by (simp add: prod_eq_iff)
qed

text \<open>
  C8 (as stated) fails: an archive that extracts without a \<^verbatim>\<open>*.SAFE\<close> entry makes
  the stager return a path, not an error.
\<close>

theorem extract_safe_no_staging_error:
  "glob_SAFE (snd (extract_safe ''/data/output/j1'' [] (ZipEntries [''readme.txt''])
       ''/data/input/S1A.zip'')) = []
   \<and> fst (extract_safe ''/data/output/j1'' [] (ZipEntries [''readme.txt''])
       ''/data/input/S1A.zip'') = Inr ''/data/output/j1/slc/S1A''"
  by (simp add: extract_safe_def path_suffix_def path_stem_def path_name_def after_last_dot_def
      lower_def lower_char_def endswith_def found_or_extract_dir_def glob_SAFE_def
      path_join_def Let_def)

lemma download_granule_failure:
  assumes "download_granule fs net url granule_name output_dir = (Inl e, fs')"
  shows "fs (granule_path output_dir granule_name) = None \<and> fs' = fs"
  using assms
  by (auto simp: download_granule_def download_failed_def Let_def fun_upd_idem_iff
      split: if_splits http_outcome.splits content_length.splits option.splits)

lemma download_granule_fresh:
  assumes "fs (granule_path output_dir granule_name) = None"
    and "download_granule fs net url granule_name output_dir = (Inr p, fs'')"
  shows "\<exists>cl chunks. net = Response cl None chunks None \<and> fs'' p = Some (write_chunks [] chunks)"
  using assms
  by (auto simp: download_granule_def download_failed_def Let_def
      split: if_splits http_outcome.splits content_length.splits option.splits)

text \<open>
  C10. When \<^verbatim>\<open>download_granule\<close> raises, the files are as before the call and there is
  no file at the granule's path, also when chunks had been written; so a later call
  for the same granule that returns has downloaded a complete response and the file
  holds all of its chunks.
\<close>

theorem failed_download_leaves_no_file:
  assumes "download_granule fs net url granule_name output_dir = (Inl e, fs')"
  shows "fs' = fs
       \<and> fs' (granule_path output_dir granule_name) = None
       \<and> (\<forall>net2 url2 p fs''.
            download_granule fs' net2 url2 granule_name output_dir = (Inr p, fs'')
            \<longrightarrow> (\<exists>cl chunks. net2 = Response cl None chunks None
                   \<and> fs'' p = Some (write_chunks [] chunks)))"
proof -
  from download_granule_failure [OF assms]
  have none: "fs (granule_path output_dir granule_name) = None" and same: "fs' = fs"
    by simp_all
  show ?thesis
    using none same download_granule_fresh [of fs' output_dir granule_name] by blast
qed

theorem failed_download_leaves_no_file_witness:
  "download_granule Map.empty (Response (Length 6) None [''abc''] (Some timeout_exn))
      ''https://example.org/g'' ''S1A'' ''/data/input'' = (Inl timeout_exn, Map.empty)
   \<and> download_granule Map.empty (Response (Length 6) None [''abc'', ''def''] None)
      ''https://example.org/g'' ''S1A'' ''/data/input''
      = (Inr ''/data/input/S1A.zip'', [''/data/input/S1A.zip'' \<mapsto> ''abcdef''])"
proof -
  have run: "download_granule Map.empty (Response (Length 6) None [''abc''] (Some timeout_exn))
      ''https://example.org/g'' ''S1A'' ''/data/input'' = (Inl timeout_exn, Map.empty)"
    by (simp add: download_granule_def download_failed_def granule_path_def endswith_def
        path_join_def Let_def)
  from failed_download_leaves_no_file [OF run]
  have "Map.empty (granule_path ''/data/input'' ''S1A'') = (None :: string option)" by simp
  moreover have "download_granule Map.empty (Response (Length 6) None [''abc'', ''def''] None)
      ''https://example.org/g'' ''S1A'' ''/data/input''
      = (Inr ''/data/input/S1A.zip'', [''/data/input/S1A.zip'' \<mapsto> ''abcdef''])"
    by (simp add: download_granule_def granule_path_def endswith_def path_join_def Let_def)
  ultimately show ?thesis using run by simp
qed


section \<open>Properties of the job handler\<close>

lemma run_stages_fail:
  "run_stages f xs = (Some e0, ex) \<Longrightarrow>
     \<exists>before s after. xs = before @ s # after \<and> ex = before @ [s] \<and> f s = Some e0
       \<and> (\<forall>t \<in> set before. f t = None)"
proof (induction xs arbitrary: ex)
  case Nil
  then show ?case by simp
next
  case (Cons x xs)
  show ?case
  proof (cases "f x")
    case (Some e)
    with Cons.prems have "e = e0" "ex = [x]" by simp_all
    with Some show ?thesis by (intro exI [of _ "[]"] exI [of _ x] exI [of _ xs]) simp
  next
    case None
    with Cons.prems obtain ex' where ex': "run_stages f xs = (Some e0, ex')" "ex = x # ex'"
      by (auto split: prod.splits)
    from Cons.IH [OF ex'(1)] obtain before s after where
      "xs = before @ s # after" "ex' = before @ [s]" "f s = Some e0" "\<forall>t \<in> set before. f t = None"
      by blast
    with None ex'(2) show ?thesis
      by (intro exI [of _ "x # before"] exI [of _ s] exI [of _ after]) simp
  qed
qed

lemma run_stages_ok:
  "run_stages f xs = (None, ex) \<Longrightarrow> ex = xs"
  by (induction xs arbitrary: ex) (auto split: option.splits prod.splits)

lemma distinct_pipeline: "distinct pipeline"
  by (simp add: pipeline_def)

lemma upload_step_fail:
  assumes "upload_step w pr drs pre = (Inl e, steps)"
  shows "steps = pre @ [Upload]"
  using assms by (auto simp: upload_step_def split: if_splits sum.splits)

lemma extract_step_fail:
  assumes "extract_step w ji pr pre = (Inl e, steps)"
  shows "steps = pre @ [ExtractPoints] \<or> steps = pre @ [ExtractPoints, Upload]
       \<or> steps = pre @ [Upload]"
  using assms upload_step_fail
  by (fastforce simp: extract_step_def split: if_splits sum.splits)

lemma process_step_fail:
  assumes "process_step w ji pre = (Inl e, steps)"
  shows "(steps = pre @ [InitProcessor])
       \<or> (\<exists>e0 before s after. pipeline = before @ s # after \<and> stage_outcome w s = Some e0
            \<and> (\<forall>t \<in> set before. stage_outcome w t = None)
            \<and> steps = pre @ [InitProcessor] @ map Run (before @ [s])
            \<and> e = \<lparr>exc_class = ''RuntimeError'',
                    exc_msg = ''ISCE3 processing failed: '' @ exc_msg e0,
                    exc_tb = [''handler''], exc_context = []\<rparr>)
       \<or> (\<exists>rest. steps = pre @ [InitProcessor] @ map Run pipeline @ rest
            \<and> rest \<in> {[ExtractPoints], [ExtractPoints, Upload], [Upload]})"
proof (cases "isce3_import_error w")
  case (Some m)
  with assms show ?thesis by (simp add: process_step_def)
next
  case None
  obtain r ex where rs: "run_stages (stage_outcome w) pipeline = (r, ex)" by force
  show ?thesis
  proof (cases r)
    case (Some e0)
    from run_stages_fail [OF rs [unfolded Some]] obtain before s after where
      b: "pipeline = before @ s # after" "ex = before @ [s]" "stage_outcome w s = Some e0"
        "\<forall>t \<in> set before. stage_outcome w t = None" by blast
    from assms None rs Some have "steps = pre @ [InitProcessor] @ map Run ex"
      and "e = \<lparr>exc_class = ''RuntimeError'',
                    exc_msg = ''ISCE3 processing failed: '' @ exc_msg e0,
                    exc_tb = [''handler''], exc_context = []\<rparr>"
      by (simp_all add: process_step_def process_pair_def raise_in_handler_def)
    with b show ?thesis by blast
  next
    case None': None
    from run_stages_ok [OF rs [unfolded None']] have ex: "ex = pipeline" .
    from assms None rs None' ex obtain pr where
      "extract_step w ji pr (pre @ [InitProcessor] @ map Run pipeline) = (Inl e, steps)"
      by (simp add: process_step_def process_pair_def)
    from extract_step_fail [OF this] show ?thesis by auto
  qed
qed


lemma handler_try_fail:
  assumes "handler_try w ji = (Inl e, steps)"
  shows "steps \<in> {[Validate], [Validate, DownloadReference],
                  [Validate, DownloadReference, DownloadSecondary]}
       \<or> process_step w ji [Validate, DownloadReference, DownloadSecondary] = (Inl e, steps)"
  using assms
  by (auto simp: handler_try_def split: validation.splits option.splits sum.splits)

lemma distinct_steps_prefix:
  assumes "pipeline = before @ s # after"
  shows "distinct ([Validate, DownloadReference, DownloadSecondary] @ [InitProcessor]
           @ map Run (before @ [s]))"
proof -
  have "distinct (before @ s # after)"
    using distinct_pipeline by (simp only: assms [symmetric])
  then have "distinct (before @ [s])" by simp
  then have "distinct (map Run (before @ [s]))"
    by (simp only: distinct_map) (simp add: inj_on_def)
  then show ?thesis by auto
qed

lemma distinct_steps_full:
  assumes "rest \<in> {[ExtractPoints], [ExtractPoints, Upload], [Upload]}"
  shows "distinct ([Validate, DownloadReference, DownloadSecondary] @ [InitProcessor]
           @ map Run pipeline @ rest)"
proof -
  have "distinct (map Run pipeline)"
    using distinct_pipeline by (simp only: distinct_map) (simp add: inj_on_def)
  with assms show ?thesis by auto
qed

lemma failure_reaches_response:
  assumes "handler_try w ji = (Inl e, steps)"
  shows "fst (handler w ji) =
           \<lparr>response_job_id = job_id_or_unknown ji, status = ''error'',
            response_results = None, response_error = Some (exc_msg e),
            error_trace = Some (format_exc e)\<rparr>
       \<and> snd (handler w ji) =
           steps @ (if truthy (webhook_url ji) then [NotifyWebhook] else []) @ [Cleanup]
       \<and> distinct steps
       \<and> (\<forall>s. last steps = Run s \<longrightarrow>
            (\<exists>e0 before after.
               pipeline = before @ s # after
             \<and> stage_outcome w s = Some e0
             \<and> (\<forall>t \<in> set before. stage_outcome w t = None)
             \<and> steps = [Validate, DownloadReference, DownloadSecondary, InitProcessor]
                         @ map Run (before @ [s])
             \<and> e = \<lparr>exc_class = ''RuntimeError'',
                     exc_msg = ''ISCE3 processing failed: '' @ exc_msg e0,
                     exc_tb = [''handler''], exc_context = []\<rparr>))"
proof -
  have resp: "fst (handler w ji) =
           \<lparr>response_job_id = job_id_or_unknown ji, status = ''error'',
            response_results = None, response_error = Some (exc_msg e),
            error_trace = Some (format_exc e)\<rparr>"
    and log: "snd (handler w ji) =
           steps @ (if truthy (webhook_url ji) then [NotifyWebhook] else []) @ [Cleanup]"
    using assms by (simp_all add: handler_def)
  let ?pre = "[Validate, DownloadReference, DownloadSecondary]"
  let ?stage = "\<lambda>s. \<exists>e0 before after.
               pipeline = before @ s # after
             \<and> stage_outcome w s = Some e0
             \<and> (\<forall>t \<in> set before. stage_outcome w t = None)
             \<and> steps = [Validate, DownloadReference, DownloadSecondary, InitProcessor]
                         @ map Run (before @ [s])
             \<and> e = \<lparr>exc_class = ''RuntimeError'',
                     exc_msg = ''ISCE3 processing failed: '' @ exc_msg e0,
                     exc_tb = [''handler''], exc_context = []\<rparr>"
  have rest: "distinct steps \<and> (\<forall>s. last steps = Run s \<longrightarrow> ?stage s)"
    using handler_try_fail [OF assms]
  proof
    assume "steps \<in> {[Validate], [Validate, DownloadReference],
                  [Validate, DownloadReference, DownloadSecondary]}"
    then show ?thesis by auto
  next
    assume "process_step w ji ?pre = (Inl e, steps)"
    from process_step_fail [OF this]
    consider (init) "steps = ?pre @ [InitProcessor]"
      | (stage) e0 before s after where "pipeline = before @ s # after"
          "stage_outcome w s = Some e0" "\<forall>t \<in> set before. stage_outcome w t = None"
          "steps = ?pre @ [InitProcessor] @ map Run (before @ [s])"
          "e = \<lparr>exc_class = ''RuntimeError'',
                    exc_msg = ''ISCE3 processing failed: '' @ exc_msg e0,
                    exc_tb = [''handler''], exc_context = []\<rparr>"
      | (later) rest where "steps = ?pre @ [InitProcessor] @ map Run pipeline @ rest"
          "rest \<in> {[ExtractPoints], [ExtractPoints, Upload], [Upload]}"
      by blast
    then show ?thesis
    proof cases
      case init
      then show ?thesis by simp
    next
      case stage
      have d: "distinct steps"
        unfolding stage(4) by (rule distinct_steps_prefix [OF stage(1)])
      have l: "last steps = Run s" using stage(4) by simp
      have "?stage s" using stage by (intro exI [of _ e0] exI [of _ before] exI [of _ after]) simp
      with d l show ?thesis by auto
    next
      case later
      have d: "distinct steps"
        unfolding later(1) by (rule distinct_steps_full [OF later(2)])
      have "last steps = last rest" using later by auto
      with later(2) have "\<forall>s. last steps \<noteq> Run s" by auto
      with d show ?thesis by simp
    qed
  qed
  from resp log rest show ?thesis by blast
qed

lemma run_stages_first_failure:
  "f s = Some e0 \<Longrightarrow> \<forall>t \<in> set before. f t = None \<Longrightarrow>
     run_stages f (before @ s # after) = (Some e0, before @ [s])"
  by (induction before) auto

lemma run_stages_all_ok:
  "\<forall>s \<in> set xs. f s = None \<Longrightarrow> run_stages f xs = (None, xs)"
  by (induction xs) auto

lemma first_failure_exists:
  assumes "\<exists>s \<in> set xs. f s \<noteq> None"
  shows "\<exists>before s after e0. xs = before @ s # after \<and> f s = Some e0
           \<and> (\<forall>t \<in> set before. f t = None)"
proof -
  from split_list_first_prop [OF assms] obtain before s after where
    "xs = before @ s # after" "f s \<noteq> None" "\<forall>t \<in> set before. \<not> f t \<noteq> None" by blast
  then show ?thesis by auto
qed

lemma status_error_iff:
  "status (fst (handler w ji)) = ''error'' \<longleftrightarrow> isl (fst (handler_try w ji))"
  by (auto simp: handler_def split: prod.splits sum.splits)

lemma handler_try_not_reached:
  assumes "\<not> reaches_pipeline w ji"
  shows "isl (fst (handler_try w ji))"
  using assms
  by (auto simp: reaches_pipeline_def handler_try_def process_step_def
      split: validation.splits option.splits sum.splits)

lemma handler_try_reached:
  assumes "reaches_pipeline w ji"
  shows "handler_try w ji = process_step w ji [Validate, DownloadReference, DownloadSecondary]"
  using assms
  by (auto simp: reaches_pipeline_def handler_try_def split: validation.splits option.splits sum.splits)

lemma process_step_stage_fails:
  assumes "isce3_import_error w = None"
    and "pipeline = before @ s # after" and "stage_outcome w s = Some e0"
    and "\<forall>t \<in> set before. stage_outcome w t = None"
  shows "process_step w ji pre =
           (Inl (raise_in_handler ''RuntimeError'' (''ISCE3 processing failed: '' @ exc_msg e0)),
            pre @ [InitProcessor] @ map Run (before @ [s]))"
proof -
  have "run_stages (stage_outcome w) pipeline = (Some e0, before @ [s])"
    unfolding assms(2) by (rule run_stages_first_failure [OF assms(3,4)])
  with assms(1) show ?thesis
    by (simp add: process_step_def process_pair_def)
qed

lemma upload_step_isl:
  "isl (fst (upload_step w pr drs steps)) \<longleftrightarrow> truthy (storage_bucket w) \<and> isl (upload w)"
  by (auto simp: upload_step_def split: sum.splits)

lemma extract_step_isl:
  assumes "truthy (displacement pr)"
  shows "isl (fst (extract_step w ji pr steps)) \<longleftrightarrow>
           (wants_points ji \<and> isl (extraction w)) \<or> (truthy (storage_bucket w) \<and> isl (upload w))"
  using assms
  by (auto simp: extract_step_def wants_points_def upload_step_isl split: sum.splits option.splits)

lemma process_step_stages_ok:
  assumes "isce3_import_error w = None"
    and "\<forall>s \<in> set pipeline. stage_outcome w s = None"
  shows "isl (fst (process_step w ji pre)) \<longleftrightarrow>
           (wants_points ji \<and> isl (extraction w)) \<or> (truthy (storage_bucket w) \<and> isl (upload w))"
proof -
  have "run_stages (stage_outcome w) pipeline = (None, pipeline)"
    by (rule run_stages_all_ok [OF assms(2)])
  with assms(1) show ?thesis
    by (simp add: process_step_def process_pair_def extract_step_isl truthy_def path_join_def)
qed

lemma job_raises_iff:
  "isl (fst (handler_try w ji)) \<longleftrightarrow> job_raises w ji"
proof (cases "reaches_pipeline w ji")
  case False
  then show ?thesis using handler_try_not_reached by (simp add: job_raises_def)
next
  case True
  then have imp: "isce3_import_error w = None" by (simp add: reaches_pipeline_def)
  show ?thesis
  proof (cases "\<exists>s \<in> set pipeline. stage_outcome w s \<noteq> None")
    case True
    from first_failure_exists [OF this] obtain before s after e0 where
      "pipeline = before @ s # after" "stage_outcome w s = Some e0"
      "\<forall>t \<in> set before. stage_outcome w t = None" by blast
    from process_step_stage_fails [OF imp this]
    have "isl (fst (process_step w ji [Validate, DownloadReference, DownloadSecondary]))"
      by simp
    with True \<open>reaches_pipeline w ji\<close> show ?thesis
      by (simp add: handler_try_reached job_raises_def)
  next
    case False
    then have "\<forall>s \<in> set pipeline. stage_outcome w s = None" by simp
    from process_step_stages_ok [OF imp this] False \<open>reaches_pipeline w ji\<close>
    show ?thesis by (simp add: handler_try_reached job_raises_def)
  qed
qed

text \<open>
  C2 (as the code has it). In every job in which something raises, an exception reaches
  the handler's \<^verbatim>\<open>except\<close> clause and the response has status "error", no results,
  that exception's message and its formatted trace; no step is taken twice and after
  the failing step only the notification and the cleanup follow. A job in which
  nothing raises is answered with status "success". When the run reaches the
  pipeline and stage \<open>s\<close> is the first to raise, with exception \<open>e0\<close>, the stages
  before \<open>s\<close> and \<open>s\<close> itself are the only ones run, the error is "ISCE3 processing
  failed: " followed by the message of \<open>e0\<close>, and the trace is that of the handler's
  own RuntimeError: the response holds neither the name of \<open>s\<close> nor the trace of \<open>e0\<close>.
\<close>

theorem failed_job_response:
  "(job_raises w ji \<longrightarrow>
      (\<exists>e steps. handler_try w ji = (Inl e, steps)
         \<and> fst (handler w ji) =
             \<lparr>response_job_id = job_id_or_unknown ji, status = ''error'',
              response_results = None, response_error = Some (exc_msg e),
              error_trace = Some (format_exc e)\<rparr>
         \<and> snd (handler w ji) =
             steps @ (if truthy (webhook_url ji) then [NotifyWebhook] else []) @ [Cleanup]
         \<and> distinct steps))
   \<and> (\<not> job_raises w ji \<longrightarrow> status (fst (handler w ji)) = ''success'')
   \<and> (\<forall>s e0 before after.
         reaches_pipeline w ji \<and> pipeline = before @ s # after
         \<and> stage_outcome w s = Some e0 \<and> (\<forall>t \<in> set before. stage_outcome w t = None)
       \<longrightarrow> handler w ji =
             (\<lparr>response_job_id = job_id_or_unknown ji, status = ''error'',
               response_results = None,
               response_error = Some (''ISCE3 processing failed: '' @ exc_msg e0),
               error_trace = Some [''Traceback (most recent call last):'', ''  in handler'',
                                   ''RuntimeError: ISCE3 processing failed: '' @ exc_msg e0]\<rparr>,
              [Validate, DownloadReference, DownloadSecondary, InitProcessor]
                @ map Run (before @ [s])
                @ (if truthy (webhook_url ji) then [NotifyWebhook] else []) @ [Cleanup]))"
proof (intro conjI allI impI)
  assume "job_raises w ji"
  then have "isl (fst (handler_try w ji))" by (simp add: job_raises_iff)
  then obtain e steps where t: "handler_try w ji = (Inl e, steps)"
    by (cases "handler_try w ji") (auto simp: isl_def)
  from failure_reaches_response [OF t] t
  show "\<exists>e steps. handler_try w ji = (Inl e, steps)
         \<and> fst (handler w ji) =
             \<lparr>response_job_id = job_id_or_unknown ji, status = ''error'',
              response_results = None, response_error = Some (exc_msg e),
              error_trace = Some (format_exc e)\<rparr>
         \<and> snd (handler w ji) =
             steps @ (if truthy (webhook_url ji) then [NotifyWebhook] else []) @ [Cleanup]
         \<and> distinct steps"
    by (intro exI [of _ e] exI [of _ steps]) simp
next
  assume "\<not> job_raises w ji"
  then have "\<not> isl (fst (handler_try w ji))" by (simp add: job_raises_iff)
  then show "status (fst (handler w ji)) = ''success''"
    by (auto simp: handler_def split: prod.splits sum.splits)
next
  fix s e0 before after
  assume h: "reaches_pipeline w ji \<and> pipeline = before @ s # after
         \<and> stage_outcome w s = Some e0 \<and> (\<forall>t \<in> set before. stage_outcome w t = None)"
  then have imp: "isce3_import_error w = None" by (simp add: reaches_pipeline_def)
  from h have "handler_try w ji =
      process_step w ji [Validate, DownloadReference, DownloadSecondary]"
    by (simp add: handler_try_reached)
  also from h have "\<dots> =
      (Inl (raise_in_handler ''RuntimeError'' (''ISCE3 processing failed: '' @ exc_msg e0)),
       [Validate, DownloadReference, DownloadSecondary] @ [InitProcessor] @ map Run (before @ [s]))"
    using process_step_stage_fails [OF imp, of before s after e0] by simp
  finally show "handler w ji =
             (\<lparr>response_job_id = job_id_or_unknown ji, status = ''error'',
               response_results = None,
               response_error = Some (''ISCE3 processing failed: '' @ exc_msg e0),
               error_trace = Some [''Traceback (most recent call last):'', ''  in handler'',
                                   ''RuntimeError: ISCE3 processing failed: '' @ exc_msg e0]\<rparr>,
              [Validate, DownloadReference, DownloadSecondary, InitProcessor]
                @ map Run (before @ [s])
                @ (if truthy (webhook_url ji) then [NotifyWebhook] else []) @ [Cleanup])"
    by (simp add: handler_def raise_in_handler_def format_exc_def)
qed

theorem failed_job_response_witness:
  "job_raises (failing_env Geocode) url_job
   \<and> reaches_pipeline (failing_env Geocode) url_job
   \<and> handler (failing_env Geocode) url_job =
       (\<lparr>response_job_id = ''j1'', status = ''error'', response_results = None,
         response_error = Some ''ISCE3 processing failed: boom'',
         error_trace = Some [''Traceback (most recent call last):'', ''  in handler'',
                             ''RuntimeError: ISCE3 processing failed: boom'']\<rparr>,
        [Validate, DownloadReference, DownloadSecondary, InitProcessor, Run ImportModules,
         Run CreateDirectories, Run PrepareDem, Run ExtractReference, Run ExtractSecondary,
         Run Coregister, Run FormInterferogram, Run FilterPhase, Run UnwrapPhase, Run Geocode,
         Cleanup])"
proof -
  have r: "reaches_pipeline (failing_env Geocode) url_job"
    by (simp add: reaches_pipeline_def validate_input_def url_job_def truthy_def
        failing_env_def ok_env_def)
  have p: "pipeline = [ImportModules, CreateDirectories, PrepareDem, ExtractReference,
      ExtractSecondary, Coregister, FormInterferogram, FilterPhase, UnwrapPhase]
      @ Geocode # [CalculateStatistics]"
    by (simp add: pipeline_def)
  have o: "stage_outcome (failing_env Geocode) Geocode = Some (stage_exn Geocode)"
    by (simp add: failing_env_def)
  have b: "\<forall>t \<in> set [ImportModules, CreateDirectories, PrepareDem, ExtractReference,
      ExtractSecondary, Coregister, FormInterferogram, FilterPhase, UnwrapPhase].
      stage_outcome (failing_env Geocode) t = None"
    by (simp add: failing_env_def ok_env_def)
  have j: "job_raises (failing_env Geocode) url_job"
    by (simp add: job_raises_def pipeline_def failing_env_def)
  from failed_job_response [of "failing_env Geocode" url_job] r p o b
  have "handler (failing_env Geocode) url_job =
       (\<lparr>response_job_id = job_id_or_unknown url_job, status = ''error'',
         response_results = None,
         response_error = Some (''ISCE3 processing failed: '' @ exc_msg (stage_exn Geocode)),
         error_trace = Some [''Traceback (most recent call last):'', ''  in handler'',
                   ''RuntimeError: ISCE3 processing failed: '' @ exc_msg (stage_exn Geocode)]\<rparr>,
        [Validate, DownloadReference, DownloadSecondary, InitProcessor]
          @ map Run ([ImportModules, CreateDirectories, PrepareDem, ExtractReference,
      ExtractSecondary, Coregister, FormInterferogram, FilterPhase, UnwrapPhase] @ [Geocode])
          @ (if truthy (webhook_url url_job) then [NotifyWebhook] else []) @ [Cleanup])"
    by blast
  then have "handler (failing_env Geocode) url_job =
       (\<lparr>response_job_id = ''j1'', status = ''error'', response_results = None,
         response_error = Some ''ISCE3 processing failed: boom'',
         error_trace = Some [''Traceback (most recent call last):'', ''  in handler'',
                             ''RuntimeError: ISCE3 processing failed: boom'']\<rparr>,
        [Validate, DownloadReference, DownloadSecondary, InitProcessor, Run ImportModules,
         Run CreateDirectories, Run PrepareDem, Run ExtractReference, Run ExtractSecondary,
         Run Coregister, Run FormInterferogram, Run FilterPhase, Run UnwrapPhase, Run Geocode,
         Cleanup])"
    by (simp add: job_id_or_unknown_def url_job_def stage_exn_def truthy_def)
  with j r show ?thesis by simp
qed

text \<open>
  C2 (as stated) fails: a job whose geocoding stage raises and a job whose unwrapping
  stage raises the same message get the same response, so the response does not name
  the stage; its error is not the stage's message as raised and its trace is not the
  stage's trace.
\<close>

theorem stage_name_not_in_response:
  "fst (handler (failing_env Geocode) url_job) = fst (handler (failing_env UnwrapPhase) url_job)
   \<and> status (fst (handler (failing_env Geocode) url_job)) = ''error''
   \<and> response_error (fst (handler (failing_env Geocode) url_job))
       = Some ''ISCE3 processing failed: boom''
   \<and> exc_msg (stage_exn Geocode) = ''boom''
   \<and> error_trace (fst (handler (failing_env Geocode) url_job))
       = Some [''Traceback (most recent call last):'', ''  in handler'',
               ''RuntimeError: ISCE3 processing failed: boom'']
   \<and> format_exc (through_handler (stage_exn Geocode))
       = [''Traceback (most recent call last):'', ''  in handler'', ''  in process_pair'',
          ''  in _geocode'', ''RuntimeError: boom'']"
  by (simp add: handler_def handler_try_def validate_input_def url_job_def truthy_def
      failing_env_def ok_env_def process_step_def process_pair_def pipeline_def stage_exn_def
      raise_in_handler_def through_handler_def format_exc_def job_id_or_unknown_def Let_def)

text \<open>
  C9 (as the code has it). Every job input without the keys \<^verbatim>\<open>reference_url\<close> and
  \<^verbatim>\<open>secondary_url\<close> ends with status "error". When it has a non-empty job id, both
  granule names and both paths, validation succeeds and the handler raises the
  KeyError for \<^verbatim>\<open>reference_url\<close> before any download.
\<close>

theorem path_only_job_fails:
  assumes "reference_url ji = None" and "secondary_url ji = None"
  shows "status (fst (handler w ji)) = ''error''
       \<and> (truthy (job_id ji) \<and> truthy (reference_granule ji) \<and> truthy (secondary_granule ji)
            \<and> truthy (reference_path ji) \<and> truthy (secondary_path ji)
          \<longrightarrow> validate_input ji = Valid
            \<and> response_error (fst (handler w ji)) = Some (repr_str ''reference_url'')
            \<and> error_trace (fst (handler w ji)) =
                Some (format_exc \<lparr>exc_class = ''KeyError'', exc_msg = repr_str ''reference_url'',
                                  exc_tb = [''handler''], exc_context = []\<rparr>)
            \<and> snd (handler w ji) =
                [Validate] @ (if truthy (webhook_url ji) then [NotifyWebhook] else []) @ [Cleanup])"
  using assms
  by (auto simp: handler_def handler_try_def validate_input_def raise_in_handler_def Let_def
      split: validation.splits option.splits)

theorem path_only_job_fails_witness:
  "validate_input path_job = Valid
   \<and> fst (handler ok_env path_job) =
       \<lparr>response_job_id = ''j1'', status = ''error'', response_results = None,
        response_error = Some (repr_str ''reference_url''),
        error_trace = Some [''Traceback (most recent call last):'', ''  in handler'',
                            ''KeyError: '' @ repr_str ''reference_url'']\<rparr>
   \<and> snd (handler ok_env path_job) = [Validate, Cleanup]"
proof -
  have u: "reference_url path_job = None" "secondary_url path_job = None"
    by (simp_all add: path_job_def)
  have t: "truthy (job_id path_job) \<and> truthy (reference_granule path_job)
      \<and> truthy (secondary_granule path_job) \<and> truthy (reference_path path_job)
      \<and> truthy (secondary_path path_job)" "\<not> truthy (webhook_url path_job)"
    by (simp_all add: path_job_def truthy_def)
  from path_only_job_fails [OF u, of ok_env] t
  have "validate_input path_job = Valid"
    and "status (fst (handler ok_env path_job)) = ''error''"
    and "response_error (fst (handler ok_env path_job)) = Some (repr_str ''reference_url'')"
    and "error_trace (fst (handler ok_env path_job)) =
                Some (format_exc \<lparr>exc_class = ''KeyError'', exc_msg = repr_str ''reference_url'',
                                  exc_tb = [''handler''], exc_context = []\<rparr>)"
    and "snd (handler ok_env path_job) = [Validate, Cleanup]"
    by simp_all
  moreover have "response_job_id (fst (handler ok_env path_job)) = ''j1''"
    and "response_results (fst (handler ok_env path_job)) = None"
    by (simp_all add: handler_def job_id_or_unknown_def path_job_def split: prod.splits sum.splits)
       (simp_all add: handler_try_def validate_input_def truthy_def split: validation.splits)
  ultimately show ?thesis
    by (cases "fst (handler ok_env path_job)") (simp add: format_exc_def)
qed

text \<open>
  C9 (as stated) fails: a job input with both paths, no URL and no job id does not
  pass validation.
\<close>

theorem path_only_job_rejected_by_validation:
  "reference_url anonymous_path_job = None \<and> secondary_url anonymous_path_job = None
   \<and> reference_path anonymous_path_job = Some ''/in/REF.zip''
   \<and> secondary_path anonymous_path_job = Some ''/in/SEC.zip''
   \<and> validate_input anonymous_path_job = Invalid ''Missing required field: job_id''"
  by (simp add: anonymous_path_job_def validate_input_def truthy_def)


end
